theory Spec2Isabelle
  imports Complex_Main
begin

section \<open>Data model of ConsIndShockModel\_AgentSolve.py\<close>

text \<open>
  Python floats are modelled as real numbers. Where the source stores
  \<^verbatim>\<open>float('inf')\<close> the value is a \<open>pyfloat\<close>. An attribute that may be absent from a
  namespace is an option: \<open>None\<close> is "no such attribute", and reading it raises.
  The exceptions of the source are the values of \<open>error\<close>.
\<close>

datatype error =
  NameError | AttributeError | TypeError | ZeroDivisionError | IndexError
  | ValueError | AssertionError | KeyError | Unmodelled

datatype pyfloat = Fin real | PosInf

datatype iter_status = not_initialized | terminal_pseudo | iterator | finished

text \<open>
  Function objects are kept as the constructor calls that build them:
  \<^verbatim>\<open>LinearInterp(x_list, y_list, intercept_limit, slope_limit)\<close>,
  \<^verbatim>\<open>LowerEnvelope(f, g)\<close>, \<^verbatim>\<open>MargValueFuncCRRA(cFunc, CRRA)\<close>,
  \<^verbatim>\<open>MargMargValueFuncCRRA(cFunc, CRRA)\<close>, \<^verbatim>\<open>NullFunc()\<close>, and an opaque
  function handed over by the successor stage.
\<close>

datatype func =
  NullFunc
  | LinearInterp "real list" "real list" "real option" "real option"
  | LowerEnvelope func func
  | MargValueFuncCRRA func real
  | MargMargValueFuncCRRA func real
  | Opaque "real \<Rightarrow> real"

text \<open>The value function object \<^verbatim>\<open>vFunc\<close> with its attributes \<^verbatim>\<open>.dm\<close> and \<^verbatim>\<open>.dm.dm\<close>.\<close>

record vfunc =
  vbase :: func
  dm :: func
  dm_dm :: func

text \<open>\<^verbatim>\<open>pars\<close>: the parameters the solver was called with, as
  \<^verbatim>\<open>solver_prep_solution_for_an_iteration\<close> leaves them.\<close>

record Parameters =
  Rfree :: real
  PermGroFac :: real
  LivPrb :: real
  DiscFac :: real
  CRRA :: real
  BoroCnstArt :: "real option"
  DiscLiv :: "real option"
  tranShkMin :: real
  permShkMin :: real
  pars_has_IncShkDstn :: bool

text \<open>\<^verbatim>\<open>folw\<close>: what was copied from the successor, each name with \<^verbatim>\<open>_tp1\<close>.\<close>

record Successor =
  hNrm_tp1 :: "real option"
  mNrmMin_tp1 :: "real option"
  MPCmin_tp1 :: "pyfloat option"
  MPCmax_tp1 :: "pyfloat option"
  cFunc_tp1 :: "func option"
  vFunc_tp1 :: "real \<Rightarrow> real"
  vFunc_tp1_dm :: "real \<Rightarrow> real"
  vFunc_tp1_CRRA :: real

text \<open>\<^verbatim>\<open>E_t\<close>: the expectations namespace.\<close>

record Expectations =
  IncNrmNxt :: "real option"
  RNrm_PF :: "real option"
  Inv_RNrm_PF :: "real option"
  v_post_choice_t :: "real list list option"

text \<open>\<^verbatim>\<open>bilt\<close>: what the solver builds. \<open>fcts\<close> lists the names of the
  \<^verbatim>\<open>*_fcts\<close> dictionaries present on \<^verbatim>\<open>bilt\<close>.\<close>

record Built =
  APF :: "real option"
  RPF :: "real option"
  GPFRaw :: "real option"
  GPFLiv :: "real option"
  GPFNrm :: "real option"
  FHWF :: "real option"
  FVAF :: "real option"
  WRPF :: "real option"
  hNrmInf :: "pyfloat option"
  DiscGPFRawCusp :: "real option"
  DiscGPFLivCusp :: "real option"
  bilt_DiscLiv :: "real option"
  hNrm :: "real option"
  BoroCnstNat :: "real option"
  BoroCnst :: "real option"
  mNrmMin :: "real option"
  MPCmin :: "real option"
  MPCmax :: "real option"
  bilt_MPCmin_tp1 :: "pyfloat option"
  bilt_MPCmax_tp1 :: "pyfloat option"
  cFuncLimitIntercept :: "real option"
  cFuncLimitSlope :: "real option"
  AIC :: "bool option"
  FHWC :: "bool option"
  RIC :: "bool option"
  GICRaw :: "bool option"
  GICNrm :: "bool option"
  GICLiv :: "bool option"
  FVAC :: "bool option"
  WRIC :: "bool option"
  conditions :: "(string \<times> bool) list option"
  bilt_degenerate :: "bool option"
  bilt_has_BoroCnstArt :: bool
  parameters_solver_is_dict :: bool
  fcts :: "string list"
  u_dc :: "real \<Rightarrow> real"
  u_dc_Nvrs :: "real \<Rightarrow> real"
  cFunc :: func
  cFuncCnst :: "func option"
  vFunc :: "vfunc option"
  aNrmGrid :: "real list option"
  cNrmGrid :: "real list option"
  cNrm :: "real list option"
  mNrm :: "real list option"
  CubicBool :: bool

text \<open>The stage solution \<^verbatim>\<open>soln_crnt\<close> with its four namespaces and the attributes
  the source sets on the object itself; \<open>stge_kind\<close> is \<^verbatim>\<open>stge_kind['iter_status']\<close>.\<close>

record Solution =
  bilt :: Built
  pars :: Parameters
  E_t :: Expectations
  folw :: Successor
  stge_kind :: "iter_status option"
  soln_hNrm_tp1 :: "real option"
  soln_MPCmax_tp1 :: "pyfloat option"
  degenerate :: "bool option"
  soln_has_IncShkDstn :: bool

section \<open>Helpers for raising code\<close>

definition ebind :: "error + 'a \<Rightarrow> ('a \<Rightarrow> error + 'b) \<Rightarrow> error + 'b" where
  "ebind m f = (case m of Inl e \<Rightarrow> Inl e | Inr x \<Rightarrow> f x)"

text \<open>Reading an attribute: \<^verbatim>\<open>AttributeError\<close> when it is absent.\<close>

definition attr :: "'a option \<Rightarrow> error + 'a" where
  "attr v = (case v of None \<Rightarrow> Inl AttributeError | Some x \<Rightarrow> Inr x)"

text \<open>Reading \<^verbatim>\<open>stge.bilt.X_fcts['urlhandle']\<close>.\<close>

definition has_fcts :: "string \<Rightarrow> Solution \<Rightarrow> bool" where
  "has_fcts name stge = (name \<in> set (fcts (bilt stge)))"

section \<open>The condition checks of ConsumerSolutionOneStateCRRA\<close>

text \<open>
  Modelled from the spec: \<^verbatim>\<open>HARK.core.core_check_condition\<close> is imported, not defined
  in the source file. The spec says a check produces, for its condition, a boolean pass or
  fail (and an explanation, which is logging): the call returns the value of the test on
  the stage.
\<close>

definition core_check_condition ::
  "string \<Rightarrow> (Solution \<Rightarrow> error + bool) \<Rightarrow> Solution \<Rightarrow> error + bool" where
  "core_check_condition name test stge = test stge"

definition check_AIC :: "Solution \<Rightarrow> error + Solution" where
  "check_AIC stge =
     (if \<not> has_fcts ''AIC_fcts'' stge then Inl AttributeError
      else ebind (core_check_condition ''AIC''
                    (\<lambda>s. ebind (attr (APF (bilt s))) (\<lambda>v. Inr (v < 1))) stge)
             (\<lambda>b. Inr (stge\<lparr>bilt := (bilt stge)\<lparr>AIC := Some b\<rparr>\<rparr>)))"

definition check_FVAC :: "Solution \<Rightarrow> error + Solution" where
  "check_FVAC stge =
     (if \<not> has_fcts ''FVAC_fcts'' stge then Inl AttributeError
      else ebind (core_check_condition ''FVAC''
                    (\<lambda>s. ebind (attr (FVAF (bilt s))) (\<lambda>v. Inr (v < 1))) stge)
             (\<lambda>b. Inr (stge\<lparr>bilt := (bilt stge)\<lparr>FVAC := Some b\<rparr>\<rparr>)))"

definition check_GICRaw :: "Solution \<Rightarrow> error + Solution" where
  "check_GICRaw stge =
     (if \<not> has_fcts ''GICRaw_fcts'' stge then Inl AttributeError
      else ebind (core_check_condition ''GICRaw''
                    (\<lambda>s. ebind (attr (GPFRaw (bilt s))) (\<lambda>v. Inr (v < 1))) stge)
             (\<lambda>b. Inr (stge\<lparr>bilt := (bilt stge)\<lparr>GICRaw := Some b\<rparr>\<rparr>)))"

definition check_GICLiv :: "Solution \<Rightarrow> error + Solution" where
  "check_GICLiv stge =
     (if \<not> has_fcts ''GPFLiv_fcts'' stge then Inl AttributeError
      else ebind (core_check_condition ''GICLiv''
                    (\<lambda>s. ebind (attr (GPFLiv (bilt s))) (\<lambda>v. Inr (v < 1))) stge)
             (\<lambda>b. Inr (stge\<lparr>bilt := (bilt stge)\<lparr>GICLiv := Some b\<rparr>\<rparr>)))"

definition check_RIC :: "Solution \<Rightarrow> error + Solution" where
  "check_RIC stge =
     (if \<not> has_fcts ''RPF_fcts'' stge then Inl AttributeError
      else ebind (core_check_condition ''RIC''
                    (\<lambda>s. ebind (attr (RPF (bilt s))) (\<lambda>v. Inr (v < 1))) stge)
             (\<lambda>b. Inr (stge\<lparr>bilt := (bilt stge)\<lparr>RIC := Some b\<rparr>\<rparr>)))"

definition check_FHWC :: "Solution \<Rightarrow> error + Solution" where
  "check_FHWC stge =
     (if \<not> has_fcts ''FHWC_fcts'' stge then Inl AttributeError
      else ebind (core_check_condition ''FHWC''
                    (\<lambda>s. ebind (attr (FHWF (bilt s))) (\<lambda>v. Inr (v < 1))) stge)
             (\<lambda>b. Inr (stge\<lparr>bilt := (bilt stge)\<lparr>FHWC := Some b\<rparr>\<rparr>)))"

text \<open>\<^verbatim>\<open>check_GICNrm\<close> returns at once, storing nothing, when \<^verbatim>\<open>stge.pars\<close> has no
  \<^verbatim>\<open>IncShkDstn\<close>; its test is \<^verbatim>\<open>GPFNrm <= 1\<close>.\<close>

definition check_GICNrm :: "Solution \<Rightarrow> error + Solution" where
  "check_GICNrm stge =
     (if \<not> pars_has_IncShkDstn (pars stge) then Inr stge
      else if \<not> has_fcts ''GICNrm_fcts'' stge then Inl AttributeError
      else ebind (core_check_condition ''GICNrm''
                    (\<lambda>s. ebind (attr (GPFNrm (bilt s))) (\<lambda>v. Inr (v \<le> 1))) stge)
             (\<lambda>b. Inr (stge\<lparr>bilt := (bilt stge)\<lparr>GICNrm := Some b\<rparr>\<rparr>)))"

text \<open>\<^verbatim>\<open>check_WRIC\<close> looks for \<^verbatim>\<open>IncShkDstn\<close> on the stage itself; its test is
  \<^verbatim>\<open>WRPF <= 1\<close>.\<close>

definition check_WRIC :: "Solution \<Rightarrow> error + Solution" where
  "check_WRIC stge =
     (if \<not> soln_has_IncShkDstn stge then Inr stge
      else if \<not> has_fcts ''WRIC_fcts'' stge then Inl AttributeError
      else ebind (core_check_condition ''WRIC''
                    (\<lambda>s. ebind (attr (WRPF (bilt s))) (\<lambda>v. Inr (v \<le> 1))) stge)
             (\<lambda>b. Inr (stge\<lparr>bilt := (bilt stge)\<lparr>WRIC := Some b\<rparr>\<rparr>)))"

text \<open>
  The verbosity of \<^verbatim>\<open>check_conditions\<close>: \<^verbatim>\<open>0\<close> when \<^verbatim>\<open>self\<close> has no attribute
  \<^verbatim>\<open>verbose\<close>, the argument unchanged otherwise. \<^verbatim>\<open>verbose >= 2\<close> raises
  \<^verbatim>\<open>TypeError\<close> on \<^verbatim>\<open>None\<close>; when it holds, the keys of
  \<^verbatim>\<open>bilt.parameters_solver\<close> are printed.
\<close>

definition verbosity :: "bool \<Rightarrow> int option \<Rightarrow> Solution \<Rightarrow> error + int" where
  "verbosity self_has_verbose verbose soln_crnt =
     (let v = (if \<not> self_has_verbose then Some 0 else verbose) in
      case v of
        None \<Rightarrow> Inl TypeError
      | Some n \<Rightarrow>
          if n \<ge> 2 \<and> \<not> parameters_solver_is_dict (bilt soln_crnt) then Inl AttributeError
          else Inr n)"

text \<open>The rule of lines 285 to 292 for the flag on the solution object.\<close>

definition set_degenerate :: "Solution \<Rightarrow> error + Solution" where
  "set_degenerate soln_crnt =
     (if bilt_has_BoroCnstArt (bilt soln_crnt) \<and> BoroCnstArt (pars soln_crnt) \<noteq> None
      then ebind (attr (RIC (bilt soln_crnt)))
             (\<lambda>ric. Inr (soln_crnt\<lparr>degenerate := Some (\<not> ric)\<rparr>))
      else ebind (attr (RIC (bilt soln_crnt)))
             (\<lambda>ric. if \<not> ric then Inr (soln_crnt\<lparr>degenerate := Some True\<rparr>)
                    else ebind (attr (FHWC (bilt soln_crnt)))
                           (\<lambda>fhwc. Inr (soln_crnt\<lparr>degenerate := Some (\<not> fhwc)\<rparr>))))"

definition check_conditions :: "bool \<Rightarrow> int option \<Rightarrow> Solution \<Rightarrow> error + Solution" where
  "check_conditions self_has_verbose verbose soln_crnt =
     (let s0 = soln_crnt\<lparr>bilt := (bilt soln_crnt)\<lparr>conditions := Some [],
                                                  bilt_degenerate := Some False\<rparr>\<rparr>
      in ebind (verbosity self_has_verbose verbose s0) (\<lambda>v.
         ebind (check_AIC s0) (\<lambda>s1.
         ebind (check_FHWC s1) (\<lambda>s2.
         ebind (check_RIC s2) (\<lambda>s3.
         ebind (check_GICRaw s3) (\<lambda>s4.
         ebind (check_GICNrm s4) (\<lambda>s5.
         ebind (check_GICLiv s5) (\<lambda>s6.
         ebind (check_FVAC s6) (\<lambda>s7.
         set_degenerate s7)))))))))"

section \<open>Python arithmetic\<close>

text \<open>Division of Python floats raises on a zero divisor.\<close>

definition pydiv :: "real \<Rightarrow> real \<Rightarrow> error + real" where
  "pydiv x y = (if y = 0 then Inl ZeroDivisionError else Inr (x / y))"

text \<open>Division by a float that may be \<^verbatim>\<open>inf\<close>: a finite number over \<^verbatim>\<open>inf\<close> is
  \<^verbatim>\<open>0.0\<close>.\<close>

fun pydivf :: "real \<Rightarrow> pyfloat \<Rightarrow> error + real" where
  "pydivf x (Fin y) = pydiv x y"
| "pydivf x PosInf = Inr 0"

text \<open>
  \<^verbatim>\<open>x ** y\<close> on Python floats: \<^verbatim>\<open>x ** 0.0\<close> is \<^verbatim>\<open>1.0\<close>, zero to a negative power
  raises, and a positive base gives the real power. A negative base is outside the model
  (Python gives a complex number for a fractional exponent): the model stops there with
  \<open>Unmodelled\<close>, which is not an exception of the source.
\<close>

definition pypow :: "real \<Rightarrow> real \<Rightarrow> error + real" where
  "pypow x y =
     (if y = 0 then Inr 1
      else if x = 0 then (if y < 0 then Inl ZeroDivisionError else Inr 0)
      else if x < 0 then Inl Unmodelled
      else Inr (x powr y))"

text \<open>Looking a name up in the merged dictionary handed to \<^verbatim>\<open>eval\<close>: the first
  namespace that has it wins, and a name in none of them is a \<^verbatim>\<open>NameError\<close>.\<close>

fun name_lookup :: "'a option list \<Rightarrow> error + 'a" where
  "name_lookup [] = Inl NameError"
| "name_lookup (None # ns) = name_lookup ns"
| "name_lookup (Some v # ns) = Inr v"

text \<open>Python's \<^verbatim>\<open>max(a, b)\<close> returns \<^verbatim>\<open>a\<close> unless \<^verbatim>\<open>b > a\<close>.\<close>

definition pymax :: "real \<Rightarrow> real \<Rightarrow> real" where
  "pymax a b = (if b > a then b else a)"

definition add_fcts :: "string list \<Rightarrow> Built \<Rightarrow> Built" where
  "add_fcts names b = b\<lparr>fcts := fcts b @ names\<rparr>"

section \<open>ConsPerfForesightSolverEOP: the facts\<close>

text \<open>
  \<^verbatim>\<open>build_infhor_facts_from_params\<close>. Every fact is the value of its
  \<^verbatim>\<open>py___code\<close> in \<^verbatim>\<open>{**E_t.__dict__, **bilt.__dict__, **givens}\<close> with
  \<^verbatim>\<open>givens = {**folw.__dict__, **pars.__dict__}\<close>: the parameters come from
  \<^verbatim>\<open>pars\<close>, the facts already built from \<^verbatim>\<open>bilt\<close> and \<^verbatim>\<open>E_t\<close>. The facts are
  listed in the order of the source.
\<close>

definition build_infhor_facts_from_params :: "Solution \<Rightarrow> error + Solution" where
  "build_infhor_facts_from_params soln_crnt =
     (let dl = DiscFac (pars soln_crnt) * LivPrb (pars soln_crnt);
          p = (pars soln_crnt)\<lparr>DiscLiv := Some dl\<rparr>
      in ebind (pydiv 1 (CRRA p)) (\<lambda>inv_rho.
         ebind (pypow (Rfree p * dl) inv_rho) (\<lambda>apf.
         ebind (pydiv apf (Rfree p)) (\<lambda>rpf.
         ebind (pydiv apf (PermGroFac p)) (\<lambda>gpfraw.
         ebind (pydiv (apf * LivPrb p) (PermGroFac p)) (\<lambda>gpfliv.
         ebind (pydiv (Rfree p) (PermGroFac p)) (\<lambda>rnrm.
         ebind (pydiv 1 rnrm) (\<lambda>inv_rnrm.
         ebind (pydiv (PermGroFac p) (Rfree p)) (\<lambda>fhwf.
         ebind (if fhwf < 1 then ebind (pydiv 1 (1 - fhwf)) (\<lambda>h. Inr (Fin h))
                else Inr PosInf) (\<lambda>hinf.
         ebind (pypow (PermGroFac p) (CRRA p)) (\<lambda>g_rho.
         ebind (pydiv g_rho (Rfree p)) (\<lambda>cusp_raw.
         ebind (pydiv g_rho (Rfree p * LivPrb p)) (\<lambda>cusp_liv.
         Inr (soln_crnt\<lparr>
           pars := p,
           bilt := add_fcts [''APF_fcts'', ''AIC_fcts'', ''RPF_fcts'', ''RIC_fcts'',
                             ''GPFRaw_fcts'', ''GICRaw_fcts'', ''GPFLiv_fcts'', ''GICLiv_fcts'',
                             ''FHWF_fcts'', ''FHWC_fcts'', ''hNrmInf_fcts'',
                             ''DiscGPFRawCusp_fcts'', ''DiscGPFLivCusp_fcts'',
                             ''FVAF_fcts'', ''FVAC_fcts'', ''DiscLiv_fcts'']
                    ((bilt soln_crnt)\<lparr>
                       APF := Some apf, RPF := Some rpf, GPFRaw := Some gpfraw,
                       GPFLiv := Some gpfliv, FHWF := Some fhwf, FVAF := Some (LivPrb p * dl),
                       hNrmInf := Some hinf, DiscGPFRawCusp := Some cusp_raw,
                       DiscGPFLivCusp := Some cusp_liv, bilt_DiscLiv := Some dl\<rparr>),
           E_t := (E_t soln_crnt)\<lparr>
                    RNrm_PF := Some rnrm, Inv_RNrm_PF := Some inv_rnrm,
                    IncNrmNxt := Some 1\<rparr>\<rparr>))))))))))))))"

text \<open>
  \<^verbatim>\<open>build_recursive_facts\<close>. \<^verbatim>\<open>givens\<close> is taken once, at entry, from \<^verbatim>\<open>folw\<close> and
  \<^verbatim>\<open>pars\<close>; \<^verbatim>\<open>bilt\<close> and \<^verbatim>\<open>E_t\<close> are read afresh by each \<^verbatim>\<open>eval\<close>. The attributes
  of the solution object itself are in none of the three dictionaries. For a
  \<^verbatim>\<open>terminal_pseudo\<close> stage the source pins \<^verbatim>\<open>hNrm_tp1\<close> and (the first time)
  \<^verbatim>\<open>MPCmax_tp1\<close> on \<^verbatim>\<open>soln_crnt\<close>, and \<^verbatim>\<open>MPCmin_tp1\<close> and (the second time)
  \<^verbatim>\<open>MPCmax_tp1\<close> on \<^verbatim>\<open>bilt\<close>. The status is read from
  \<^verbatim>\<open>soln_crnt.stge_kind\<close> (line 1312), before the first fact is evaluated: without
  that attribute the read raises.
\<close>

definition mpc_fact :: "real \<Rightarrow> pyfloat \<Rightarrow> error + real" where
  "mpc_fact rpf mpc_tp1 =
     ebind (pydivf rpf mpc_tp1) (\<lambda>q. pydiv 1 (1 + q))"

definition build_recursive_facts :: "Solution \<Rightarrow> error + Solution" where
  "build_recursive_facts soln_crnt =
     (let givens = folw soln_crnt; p = pars soln_crnt in
      ebind (attr (stge_kind soln_crnt)) (\<lambda>kind.
      let terminal = (kind = terminal_pseudo);
          s1 = (if terminal then soln_crnt\<lparr>soln_hNrm_tp1 := Some (- 1)\<rparr> else soln_crnt)
      in ebind (pydiv (PermGroFac p) (Rfree p)) (\<lambda>g_over_r.
         ebind (name_lookup [hNrm_tp1 givens]) (\<lambda>h_tp1.
         let h = g_over_r * (1 + h_tp1) in
         ebind (if terminal then Inr h
                else ebind (name_lookup [mNrmMin_tp1 givens]) (\<lambda>m_tp1.
                     ebind (pydiv (PermGroFac p) (Rfree p)) (\<lambda>gr.
                     Inr ((m_tp1 - tranShkMin p) * gr * permShkMin p)))) (\<lambda>nat.
         let cnst = (case BoroCnstArt p of None \<Rightarrow> nat
                     | Some art \<Rightarrow> if nat < art then art else nat);
             s2 = (if terminal then s1\<lparr>soln_MPCmax_tp1 := Some PosInf\<rparr> else s1)
         in
         ebind (name_lookup [RPF (bilt s2)]) (\<lambda>rpf.
         ebind (name_lookup [MPCmax_tp1 givens, bilt_MPCmax_tp1 (bilt s2)]) (\<lambda>mx_tp1.
         ebind (mpc_fact rpf mx_tp1) (\<lambda>mpcmax_first.
         let b3 = (if terminal then (bilt s2)\<lparr>bilt_MPCmin_tp1 := Some PosInf\<rparr> else bilt s2) in
         ebind (name_lookup [MPCmin_tp1 givens, bilt_MPCmin_tp1 b3]) (\<lambda>mn_tp1.
         ebind (mpc_fact rpf mn_tp1) (\<lambda>mpcmin.
         let b4 = (if terminal then b3\<lparr>bilt_MPCmax_tp1 := Some PosInf\<rparr> else b3) in
         ebind (name_lookup [MPCmax_tp1 givens, bilt_MPCmax_tp1 b4]) (\<lambda>mx_tp1'.
         ebind (mpc_fact rpf mx_tp1') (\<lambda>mpcmax.
         Inr (s2\<lparr>
           pars := p\<lparr>DiscLiv := Some (DiscFac p * LivPrb p)\<rparr>,
           bilt := add_fcts [''hNrm_fcts'', ''BoroCnstNat_fcts'', ''BoroCnst_fcts'',
                             ''MPCmax_fcts'', ''mNrmMin_fcts'', ''MPCmin_fcts'',
                             ''cFuncLimitIntercept_fcts'', ''cFuncLimitSlope_fcts'']
                    (b4\<lparr>hNrm := Some h, BoroCnstNat := Some nat, BoroCnst := Some cnst,
                        mNrmMin := Some cnst, MPCmin := Some mpcmin, MPCmax := Some mpcmax,
                        cFuncLimitIntercept := Some (mpcmin * h),
                        cFuncLimitSlope := Some mpcmin\<rparr>)\<rparr>)))))))))))))"

section \<open>ConsPerfForesightSolverEOP.make\_cFunc\_PF\<close>

text \<open>Adding two one-dimensional numpy arrays: equal lengths, or one of length one that
  is broadcast; anything else raises.\<close>

definition np_add :: "real list \<Rightarrow> real list \<Rightarrow> error + real list" where
  "np_add xs ys =
     (if length xs = length ys then Inr (map2 (+) xs ys)
      else if length xs = 1 then Inr (map (\<lambda>y. hd xs + y) ys)
      else if length ys = 1 then Inr (map (\<lambda>x. x + hd ys) xs)
      else Inl ValueError)"

text \<open>\<^verbatim>\<open>f.x_list[:-1][1:]\<close> and \<^verbatim>\<open>f.y_list[:-1][1:]\<close>: only a \<^verbatim>\<open>LinearInterp\<close> has
  the two lists.\<close>

fun kinks_of :: "func \<Rightarrow> error + (real list \<times> real list)" where
  "kinks_of (LinearInterp xs ys il sl) = Inr (tl (butlast xs), tl (butlast ys))"
| "kinks_of f = Inl AttributeError"

text \<open>\<^verbatim>\<open>np.where(mNrm_kinks >= mNrm_cusp)[0][-1]\<close>: the last index whose kink is at or
  above the cusp.\<close>

definition first_reachable :: "real list \<Rightarrow> real \<Rightarrow> error + nat" where
  "first_reachable mNrm_kinks mNrm_cusp =
     (case filter (\<lambda>i. mNrm_kinks ! i \<ge> mNrm_cusp) [0..<length mNrm_kinks] of
        [] \<Rightarrow> Inl IndexError
      | i # is \<Rightarrow> Inr (last (i # is)))"

text \<open>The merge of the cusp with the mapped kinks (lines 732 to 749), for the two
  lists that enter the consumption function.\<close>

definition merge_cusp ::
  "real list \<Rightarrow> real list \<Rightarrow> real \<Rightarrow> real \<Rightarrow> error + (real list \<times> real list)" where
  "merge_cusp mNrm_kinks cNrm_kinks mNrm_cusp cNrm_cusp =
     (if mNrm_kinks = [] then Inl IndexError
      else if mNrm_cusp \<ge> last mNrm_kinks then Inr ([mNrm_cusp], [cNrm_cusp])
      else ebind (first_reachable mNrm_kinks mNrm_cusp) (\<lambda>fr.
           if fr < length mNrm_kinks - 1
           then Inr (mNrm_cusp # butlast (drop fr mNrm_kinks),
                     cNrm_cusp # butlast (drop fr cNrm_kinks))
           else Inr (mNrm_cusp # mNrm_kinks, cNrm_cusp # cNrm_kinks)))"

text \<open>
  \<^verbatim>\<open>make_cFunc_PF\<close>: the computations that reach \<^verbatim>\<open>bilt.cFunc\<close>, and the scalar
  operations of the others that can raise. The value-function grids of the source do not
  enter the consumption function and are left out.
\<close>

definition make_cFunc_PF :: "Solution \<Rightarrow> error + Solution" where
  "make_cFunc_PF soln_crnt =
     (let b = bilt soln_crnt; p = pars soln_crnt; f = folw soln_crnt in
      ebind (attr (MPCmin b)) (\<lambda>mpcmin.
      ebind (attr (IncNrmNxt (E_t soln_crnt))) (\<lambda>inc.
      ebind (attr (BoroCnstNat b)) (\<lambda>nat.
      let disc_liv = DiscFac p * LivPrb p;
          rho_tp1 = vFunc_tp1_CRRA f;
          cnst = (case BoroCnstArt p of None \<Rightarrow> nat | Some art \<Rightarrow> pymax art nat)
      in
      ebind (attr (cFunc_tp1 f)) (\<lambda>c_tp1.
      ebind (kinks_of c_tp1) (\<lambda>(mNrm_kinks_tp1, cNrm_kinks_tp1).
      ebind (pydiv (PermGroFac p) (Rfree p)) (\<lambda>g_over_r.
      let aNrm_kinks = map (\<lambda>m. (m - inc) * g_over_r) mNrm_kinks_tp1 in
      ebind (pydiv (- 1) rho_tp1) (\<lambda>e.
      ebind (pypow (Rfree p * disc_liv) e) (\<lambda>euler.
      let cNrm_kinks = map (\<lambda>c. euler * PermGroFac p * c) cNrm_kinks_tp1 in
      ebind (pypow (PermGroFac p) (1 - CRRA p)) (\<lambda>_.
      ebind (np_add aNrm_kinks cNrm_kinks) (\<lambda>mNrm_kinks.
      ebind (pydiv (Rfree p) (PermGroFac p)) (\<lambda>r_over_g.
      let mNrmMin_next = inc + cnst * r_over_g in
      ebind (pypow (PermGroFac p) (1 - rho_tp1)) (\<lambda>_.
      ebind (pypow (PermGroFac p) (- rho_tp1)) (\<lambda>g_pow.
      let vP_t_at_BoroCnst = (Rfree p * disc_liv) * g_pow * vFunc_tp1_dm f mNrmMin_next;
          cNrm_cusp = u_dc_Nvrs b vP_t_at_BoroCnst;
          mNrm_cusp = cNrm_cusp + cnst
      in
      ebind (merge_cusp mNrm_kinks cNrm_kinks mNrm_cusp cNrm_cusp) (\<lambda>(mk, ck).
      ebind (pydiv 1 (1 - CRRA p)) (\<lambda>_.
      ebind (pydiv (- 1) (CRRA p)) (\<lambda>_.
      let mNrmGrid = cnst # mk; cNrmGrid = 0 # ck;
          mNrmGrid' = mNrmGrid @ [last mNrmGrid + 1];
          cNrmGrid' = cNrmGrid @ [last cNrmGrid + mpcmin]
      in Inr (soln_crnt\<lparr>
                bilt := b\<lparr>cFunc := LinearInterp mNrmGrid' cNrmGrid' None None\<rparr>,
                folw := f\<lparr>mNrmMin_tp1 := Some mNrmMin_next\<rparr>\<rparr>))))))))))))))))))"

section \<open>ConsIndShockSetupEOP: the shock distributions\<close>

record DiscreteDistribution =
  X :: "real list"
  pmf :: "real list"

text \<open>The joint distribution: one array of values per shock, the joint probabilities,
  and \<^verbatim>\<open>parameters['ShkPosn']\<close>.\<close>

record JointDistribution =
  joint_X :: "real list list"
  joint_pmf :: "real list"
  ShkPosn :: "string \<rightharpoonup> nat"

record ShockParameters =
  permPos :: nat
  tranPos :: nat
  permShkValsBcst :: "real list"
  tranShkValsBcst :: "real list"
  ShkPrbs :: "real list"
  permShkPrbs :: "real list"
  permShkVals :: "real list"
  tranShkPrbs :: "real list"
  tranShkVals :: "real list"
  permShkMax :: real
  tranShkMax :: real
  UnempPrb :: real
  inc_min_Prb :: real
  inc_max_Prb :: real
  inc_max_Val :: real

text \<open>\<^verbatim>\<open>numpy.dot\<close> of two one-dimensional arrays.\<close>

definition E_dot :: "real list \<Rightarrow> real list \<Rightarrow> error + real" where
  "E_dot a b =
     (if length a \<noteq> length b then Inl ValueError
      else Inr (sum_list (map2 (*) a b)))"

text \<open>\<^verbatim>\<open>numpy.testing.assert_approx_equal\<close>: the tolerance test \<open>approx\<close> is
  numpy's and is a parameter.\<close>

definition assert_approx_equal ::
  "(real \<Rightarrow> real \<Rightarrow> bool) \<Rightarrow> real \<Rightarrow> real \<Rightarrow> error + unit" where
  "assert_approx_equal approx actual desired =
     (if approx actual desired then Inr () else Inl AssertionError)"

definition np_min :: "real list \<Rightarrow> error + real" where
  "np_min xs = (case xs of [] \<Rightarrow> Inl ValueError | x # r \<Rightarrow> Inr (fold min r x))"

definition np_max :: "real list \<Rightarrow> error + real" where
  "np_max xs = (case xs of [] \<Rightarrow> Inl ValueError | x # r \<Rightarrow> Inr (fold max r x))"

definition dict_get :: "('k \<rightharpoonup> 'v) \<Rightarrow> 'k \<Rightarrow> error + 'v" where
  "dict_get d k = (case d k of None \<Rightarrow> Inl KeyError | Some v \<Rightarrow> Inr v)"

definition list_get :: "'a list \<Rightarrow> nat \<Rightarrow> error + 'a" where
  "list_get xs i = (if i < length xs then Inr (xs ! i) else Inl IndexError)"

text \<open>Multiplying two one-dimensional arrays, with numpy's broadcasting.\<close>

definition np_mul :: "real list \<Rightarrow> real list \<Rightarrow> error + real list" where
  "np_mul xs ys =
     (if length xs = length ys then Inr (map2 (*) xs ys)
      else if length xs = 1 then Inr (map (\<lambda>y. hd xs * y) ys)
      else if length ys = 1 then Inr (map (\<lambda>x. x * hd ys) xs)
      else Inl ValueError)"

text \<open>\<^verbatim>\<open>np.sum(ShkPrbs[shk == v])\<close>: a boolean mask has to be as long as the array.\<close>

definition masked_sum :: "real list \<Rightarrow> real list \<Rightarrow> real \<Rightarrow> error + real" where
  "masked_sum prbs shk v =
     (if length shk \<noteq> length prbs then Inl IndexError
      else Inr (sum_list (map fst (filter (\<lambda>(q, x). x = v) (zip prbs shk)))))"

text \<open>
  \<^verbatim>\<open>ConsIndShockSetupEOP.__init__\<close>, after the call of the perfect-foresight
  initialiser: the shock values and probabilities go to \<^verbatim>\<open>pars\<close>, and the two means
  are checked.
\<close>

definition ConsIndShockSetupEOP_init ::
  "(real \<Rightarrow> real \<Rightarrow> bool) \<Rightarrow> JointDistribution \<Rightarrow> DiscreteDistribution
     \<Rightarrow> DiscreteDistribution \<Rightarrow> Solution \<Rightarrow> error + (Solution \<times> ShockParameters)" where
  "ConsIndShockSetupEOP_init approx IncShkDstn permShkDstn tranShkDstn soln_crnt =
     ebind (dict_get (ShkPosn IncShkDstn) ''perm'') (\<lambda>ppos.
     ebind (dict_get (ShkPosn IncShkDstn) ''tran'') (\<lambda>tpos.
     ebind (list_get (joint_X IncShkDstn) ppos) (\<lambda>pbcst.
     ebind (list_get (joint_X IncShkDstn) tpos) (\<lambda>tbcst.
     ebind (E_dot (pmf permShkDstn) (X permShkDstn)) (\<lambda>pmean.
     ebind (assert_approx_equal approx pmean 1) (\<lambda>_.
     ebind (E_dot (pmf tranShkDstn) (X tranShkDstn)) (\<lambda>tmean.
     ebind (assert_approx_equal approx tmean 1) (\<lambda>_.
     ebind (np_min (X permShkDstn)) (\<lambda>pmin.
     ebind (np_min (X tranShkDstn)) (\<lambda>tmin.
     ebind (np_max (X permShkDstn)) (\<lambda>pmax.
     ebind (np_max (X tranShkDstn)) (\<lambda>tmax.
     ebind (list_get (pmf tranShkDstn) 0) (\<lambda>unemp.
     ebind (np_mul pbcst tbcst) (\<lambda>shk.
     ebind (masked_sum (joint_pmf IncShkDstn) shk (pmin * tmin)) (\<lambda>min_prb.
     ebind (np_mul pbcst tbcst) (\<lambda>shk'.
     ebind (masked_sum (joint_pmf IncShkDstn) shk' (pmax * tmax)) (\<lambda>max_prb.
     Inr (soln_crnt\<lparr>pars := (pars soln_crnt)\<lparr>permShkMin := pmin, tranShkMin := tmin\<rparr>\<rparr>,
          \<lparr>permPos = ppos, tranPos = tpos,
           permShkValsBcst = pbcst, tranShkValsBcst = tbcst,
           ShkPrbs = joint_pmf IncShkDstn,
           permShkPrbs = pmf permShkDstn, permShkVals = X permShkDstn,
           tranShkPrbs = pmf tranShkDstn, tranShkVals = X tranShkDstn,
           permShkMax = pmax, tranShkMax = tmax, UnempPrb = unemp,
           inc_min_Prb = min_prb, inc_max_Prb = max_prb,
           inc_max_Val = pmax * tmax\<rparr>))))))))))))))))))"

section \<open>ConsIndShockSolverBasicEOP: the endogenous gridpoints\<close>

text \<open>The object \<^verbatim>\<open>solution_interpolating\<close> that \<^verbatim>\<open>use_points_for_interpolation\<close>
  returns, as the arguments of its constructor.\<close>

record EGM_solution =
  sol_cFunc :: func
  sol_vFunc :: vfunc
  sol_vPfunc :: func
  sol_mNrmMin :: real
  sol_CRRA :: real

definition get_source_points_via_EGM ::
  "real list \<Rightarrow> real list \<Rightarrow> Solution \<Rightarrow> error + ((real list \<times> real list) \<times> Solution)" where
  "get_source_points_via_EGM EndOfPrdvP aNrm soln_crnt =
     (let cs = map (u_dc_Nvrs (bilt soln_crnt)) EndOfPrdvP in
      ebind (np_add cs aNrm) (\<lambda>ms.
      let c_for_interpolation = 0 # cs in
      ebind (attr (BoroCnstNat (bilt soln_crnt))) (\<lambda>nat.
      let m_for_interpolation = nat # ms in
      Inr ((c_for_interpolation, m_for_interpolation),
           soln_crnt\<lparr>bilt := (bilt soln_crnt)\<lparr>cNrm := Some cs, mNrm := Some ms\<rparr>\<rparr>))))"

definition make_linear_cFunc :: "real list \<Rightarrow> real list \<Rightarrow> Solution \<Rightarrow> error + func" where
  "make_linear_cFunc ms cs soln_crnt =
     ebind (attr (cFuncLimitIntercept (bilt soln_crnt))) (\<lambda>il.
     ebind (attr (cFuncLimitSlope (bilt soln_crnt))) (\<lambda>sl.
     Inr (LinearInterp ms cs (Some il) (Some sl))))"

definition use_points_for_interpolation ::
  "real list \<Rightarrow> real list \<Rightarrow> (real list \<Rightarrow> real list \<Rightarrow> Solution \<Rightarrow> error + func)
     \<Rightarrow> Solution \<Rightarrow> error + (EGM_solution \<times> Solution)" where
  "use_points_for_interpolation cs ms interpolator soln_crnt =
     (let b = bilt soln_crnt; p = pars soln_crnt in
      ebind (interpolator ms cs soln_crnt) (\<lambda>cFuncUnc.
      ebind (case BoroCnstArt p of
               None \<Rightarrow> Inr (cFuncUnc, b)
             | Some art \<Rightarrow>
                 ebind (attr (mNrmMin b)) (\<lambda>mn.
                 let cnst = LinearInterp [mn, mn + 1] [0, 1] None None in
                 Inr (LowerEnvelope cFuncUnc cnst, b\<lparr>cFuncCnst := Some cnst\<rparr>)))
        (\<lambda>(cF, b1).
      let vF = \<lparr>vbase = NullFunc, dm = MargValueFuncCRRA cF (CRRA p),
                dm_dm = MargMargValueFuncCRRA (cFunc b1) (CRRA p)\<rparr>;
          b2 = b1\<lparr>vFunc := Some vF\<rparr>
      in
      ebind (attr (mNrmMin b2)) (\<lambda>mn.
      Inr (\<lparr>sol_cFunc = cF, sol_vFunc = vF, sol_vPfunc = dm vF,
            sol_mNrmMin = mn, sol_CRRA = CRRA p\<rparr>,
           soln_crnt\<lparr>bilt := b2\<rparr>)))))"

definition interpolating_EGM_solution ::
  "real list \<Rightarrow> real list \<Rightarrow> (real list \<Rightarrow> real list \<Rightarrow> Solution \<Rightarrow> error + func)
     \<Rightarrow> Solution \<Rightarrow> error + (EGM_solution \<times> Solution)" where
  "interpolating_EGM_solution EndOfPrdvP aNrm interpolator soln_crnt =
     ebind (get_source_points_via_EGM EndOfPrdvP aNrm soln_crnt) (\<lambda>((cs, ms), s1).
     use_points_for_interpolation cs ms interpolator s1)"

text \<open>
  \<^verbatim>\<open>make_sol_using_EGM\<close> of the basic solver. The class has no
  \<^verbatim>\<open>make_cubic_cFunc\<close>: with \<^verbatim>\<open>CubicBool\<close> set, reading it raises.
\<close>

definition make_sol_using_EGM :: "Solution \<Rightarrow> error + (EGM_solution \<times> Solution)" where
  "make_sol_using_EGM soln_crnt =
     ebind (attr (v_post_choice_t (E_t soln_crnt))) (\<lambda>v.
     ebind (list_get v 1) (\<lambda>v1.
     let s1 = soln_crnt\<lparr>bilt := (bilt soln_crnt)
                 \<lparr>cNrmGrid := Some (map (u_dc_Nvrs (bilt soln_crnt)) v1)\<rparr>\<rparr> in
     ebind (attr (aNrmGrid (bilt s1))) (\<lambda>a.
     if CubicBool (bilt s1) then Inl AttributeError
     else interpolating_EGM_solution v1 a make_linear_cFunc s1)))"

text \<open>
  Modelled from the spec: calling a function object of \<^verbatim>\<open>HARK.interpolation\<close>, which
  is not in the source file. The spec gives \<^verbatim>\<open>marginal value(m) = u'(cFunc(m))\<close> for the
  marginal value function and the pointwise minimum for the lower envelope. The
  interpolators and the other objects are black boxes: \<open>prim\<close> evaluates them, and \<open>uP\<close>
  is the marginal utility of the utility bundle for a given risk aversion.
\<close>

fun evalf ::
  "(real \<Rightarrow> real \<Rightarrow> real) \<Rightarrow> (func \<Rightarrow> real \<Rightarrow> real option) \<Rightarrow> func \<Rightarrow> real \<Rightarrow> real option" where
  "evalf uP prim (MargValueFuncCRRA f rho) m = map_option (uP rho) (evalf uP prim f m)"
| "evalf uP prim (LowerEnvelope f g) m =
     (case (evalf uP prim f m, evalf uP prim g m) of
        (Some a, Some b) \<Rightarrow> Some (min a b)
      | _ \<Rightarrow> None)"
| "evalf uP prim f m = prim f m"

section \<open>Concrete stages\<close>

text \<open>Reading one attribute off the result of a raising computation.\<close>

definition result_of :: "('a \<Rightarrow> 'b) \<Rightarrow> error + 'a \<Rightarrow> error + 'b" where
  "result_of f r = (case r of Inl e \<Rightarrow> Inl e | Inr x \<Rightarrow> Inr (f x))"

text \<open>
  Modelled from the spec: \<^verbatim>\<open>def_utility\<close> is imported from another module. The spec
  names the bundle as CRRA utility with its derivative and derivative-inverse; for risk
  aversion \<open>rho\<close> these are \<open>c powr (- rho)\<close> and \<open>v powr (- 1 / rho)\<close>. The bundle is only
  used to fill the concrete stages below.
\<close>

definition fresh_bilt :: "real \<Rightarrow> Built" where
  "fresh_bilt rho =
     \<lparr>APF = None, RPF = None, GPFRaw = None, GPFLiv = None, GPFNrm = None, FHWF = None,
      FVAF = None, WRPF = None, hNrmInf = None, DiscGPFRawCusp = None,
      DiscGPFLivCusp = None, bilt_DiscLiv = None, hNrm = None, BoroCnstNat = None,
      BoroCnst = None, mNrmMin = None, MPCmin = None, MPCmax = None,
      bilt_MPCmin_tp1 = None, bilt_MPCmax_tp1 = None, cFuncLimitIntercept = None,
      cFuncLimitSlope = None, AIC = None, FHWC = None, RIC = None, GICRaw = None,
      GICNrm = None, GICLiv = None, FVAC = None, WRIC = None, conditions = None,
      bilt_degenerate = None, bilt_has_BoroCnstArt = False,
      parameters_solver_is_dict = True, fcts = [],
      u_dc = (\<lambda>c. c powr (- rho)), u_dc_Nvrs = (\<lambda>v. v powr (- 1 / rho)),
      cFunc = NullFunc, cFuncCnst = None, vFunc = None, aNrmGrid = None, cNrmGrid = None,
      cNrm = None, mNrm = None, CubicBool = False\<rparr>"

definition fresh_E_t :: Expectations where
  "fresh_E_t = \<lparr>IncNrmNxt = None, RNrm_PF = None, Inv_RNrm_PF = None,
                v_post_choice_t = None\<rparr>"

text \<open>\<^verbatim>\<open>folw\<close> as \<^verbatim>\<open>Successor()\<close> leaves it: nothing copied yet.\<close>

definition empty_folw :: Successor where
  "empty_folw = \<lparr>hNrm_tp1 = None, mNrmMin_tp1 = None, MPCmin_tp1 = None,
                 MPCmax_tp1 = None, cFunc_tp1 = None, vFunc_tp1 = (\<lambda>m. 0),
                 vFunc_tp1_dm = (\<lambda>m. 0), vFunc_tp1_CRRA = 2\<rparr>"

text \<open>The recursive quantities of the terminal bootstrap of scenario A, copied into
  \<^verbatim>\<open>folw\<close>: \<open>hNrm = 0\<close>, \<open>mNrmMin = 0\<close>, \<open>MPCmin = MPCmax = 1\<close>, and the terminal
  consumption function \<open>c(m) = m\<close> with its marginal value.\<close>

definition terminal_folw :: Successor where
  "terminal_folw = \<lparr>hNrm_tp1 = Some 0, mNrmMin_tp1 = Some 0, MPCmin_tp1 = Some (Fin 1),
                    MPCmax_tp1 = Some (Fin 1),
                    cFunc_tp1 = Some (LinearInterp [0, 1] [0, 1] None None),
                    vFunc_tp1 = (\<lambda>m. - (1 / m)), vFunc_tp1_dm = (\<lambda>m. m powr (- 2)),
                    vFunc_tp1_CRRA = 2\<rparr>"

definition prepared_stage :: "Parameters \<Rightarrow> Successor \<Rightarrow> iter_status \<Rightarrow> Solution" where
  "prepared_stage p f k =
     \<lparr>bilt = fresh_bilt (CRRA p), pars = p, E_t = fresh_E_t, folw = f,
      stge_kind = Some k,
      soln_hNrm_tp1 = None, soln_MPCmax_tp1 = None, degenerate = None,
      soln_has_IncShkDstn = False\<rparr>"

text \<open>Scenario B of the spec: perfect foresight, no artificial constraint, solved
  against the terminal bootstrap.\<close>

definition scenario_B_pars :: Parameters where
  "scenario_B_pars = \<lparr>Rfree = 103 / 100, PermGroFac = 1, LivPrb = 1, DiscFac = 96 / 100,
                      CRRA = 2, BoroCnstArt = None, DiscLiv = None, tranShkMin = 1,
                      permShkMin = 1, pars_has_IncShkDstn = False\<rparr>"

definition scenario_B :: Solution where
  "scenario_B = prepared_stage scenario_B_pars terminal_folw iterator"

text \<open>A stage with the artificial constraint \<open>BoroCnstArt = 0\<close>, return factor 1 and
  discount factor 0.81.\<close>

definition constrained_pars :: Parameters where
  "constrained_pars = \<lparr>Rfree = 1, PermGroFac = 1, LivPrb = 1, DiscFac = 81 / 100,
                       CRRA = 2, BoroCnstArt = Some 0, DiscLiv = None, tranShkMin = 1,
                       permShkMin = 1, pars_has_IncShkDstn = False\<rparr>"

definition constrained_stage :: Solution where
  "constrained_stage = prepared_stage constrained_pars terminal_folw iterator"

text \<open>
  The stage of a solver whose successor is \<^verbatim>\<open>terminal_pseudo\<close>, as
  \<^verbatim>\<open>solver_prep_solution_for_an_iteration\<close> leaves it. The initialiser has copied the
  terminal record's \<^verbatim>\<open>bilt\<close> (here the quantities of the terminal bootstrap, with
  \<open>c(m) = m\<close>), and the preparation returns at line 1519 with \<^verbatim>\<open>folw\<close> empty and
  without an attribute \<^verbatim>\<open>stge_kind\<close> on the solution object: the source sets that
  attribute only to \<^verbatim>\<open>iterator\<close> (lines 1464 and 1533 to 1535), and the status
  \<^verbatim>\<open>terminal_pseudo\<close> is on \<^verbatim>\<open>bilt.stge_kind\<close> alone.
\<close>

definition terminal_pseudo_stage :: Solution where
  "terminal_pseudo_stage =
     \<lparr>bilt = (fresh_bilt 2)\<lparr>hNrm := Some 0, mNrmMin := Some 0, MPCmin := Some 1,
                             MPCmax := Some 1,
                             cFunc := LinearInterp [0, 1] [0, 1] None None\<rparr>,
      pars = scenario_B_pars, E_t = fresh_E_t, folw = empty_folw, stge_kind = None,
      soln_hNrm_tp1 = None, soln_MPCmax_tp1 = None, degenerate = None,
      soln_has_IncShkDstn = False\<rparr>"

text \<open>The facts of a perfect-foresight stage: the two builders one after the other, as
  \<^verbatim>\<open>solve_prepared_stage\<close> calls them.\<close>

definition build_facts :: "Solution \<Rightarrow> error + Solution" where
  "build_facts soln_crnt =
     ebind (build_infhor_facts_from_params soln_crnt) build_recursive_facts"

text \<open>An income-shock stage with its facts built: the stage of \<open>constrained_stage\<close>
  with a shock distribution, \<open>GPFNrm\<close> and \<open>WRPF\<close>.\<close>

definition income_shock_stage :: Solution where
  "income_shock_stage =
     \<lparr>bilt = (fresh_bilt 2)\<lparr>
        APF := Some (9 / 10), RPF := Some (9 / 10), GPFRaw := Some (9 / 10),
        GPFLiv := Some (9 / 10), GPFNrm := Some (91 / 100), FHWF := Some 1,
        FVAF := Some (81 / 100), WRPF := Some (9 / 40),
        fcts := [''AIC_fcts'', ''RPF_fcts'', ''GICRaw_fcts'', ''GPFLiv_fcts'',
                 ''FHWC_fcts'', ''FVAC_fcts'', ''GICNrm_fcts'', ''WRIC_fcts'']\<rparr>,
      pars = constrained_pars\<lparr>pars_has_IncShkDstn := True\<rparr>,
      E_t = fresh_E_t, folw = terminal_folw, stge_kind = Some iterator,
      soln_hNrm_tp1 = None, soln_MPCmax_tp1 = None, degenerate = None,
      soln_has_IncShkDstn = True\<rparr>"

text \<open>A perfect-foresight stage with unit factors and \<open>BoroCnstArt = 0\<close>, whose
  successor consumes everything, \<open>c(m) = m\<close>, on three interpolation nodes.\<close>

definition unit_pars :: Parameters where
  "unit_pars = \<lparr>Rfree = 1, PermGroFac = 1, LivPrb = 1, DiscFac = 1,
                CRRA = 2, BoroCnstArt = Some 0, DiscLiv = None, tranShkMin = 1,
                permShkMin = 1, pars_has_IncShkDstn = False\<rparr>"

definition pf_stage :: Solution where
  "pf_stage = prepared_stage unit_pars
     (terminal_folw\<lparr>cFunc_tp1 := Some (LinearInterp [0, 1, 2] [0, 1, 2] None None)\<rparr>)
     iterator"

text \<open>A stage of the basic solver ready for the endogenous gridpoints: two asset
  gridpoints and the post-choice value with its first two derivatives on them.\<close>

definition egm_stage :: Solution where
  "egm_stage =
     \<lparr>bilt = (fresh_bilt 2)\<lparr>BoroCnstNat := Some 0, BoroCnst := Some 0, mNrmMin := Some 0,
                             cFuncLimitIntercept := Some 0, cFuncLimitSlope := Some (1 / 2),
                             aNrmGrid := Some [1, 2]\<rparr>,
      pars = scenario_B_pars\<lparr>pars_has_IncShkDstn := True\<rparr>,
      E_t = fresh_E_t\<lparr>v_post_choice_t := Some [[- 1, - 1], [1, 1], [- 2, - 2]]\<rparr>,
      folw = terminal_folw, stge_kind = Some iterator,
      soln_hNrm_tp1 = None, soln_MPCmax_tp1 = None, degenerate = None,
      soln_has_IncShkDstn = False\<rparr>"

text \<open>Two-point shock distributions with mean one, their joint distribution, and a
  permanent shock distribution with mean 1.05.\<close>

definition perm_dstn :: DiscreteDistribution where
  "perm_dstn = \<lparr>X = [9 / 10, 11 / 10], pmf = [1 / 2, 1 / 2]\<rparr>"

definition tran_dstn :: DiscreteDistribution where
  "tran_dstn = \<lparr>X = [1 / 2, 3 / 2], pmf = [1 / 2, 1 / 2]\<rparr>"

definition inc_dstn :: JointDistribution where
  "inc_dstn = \<lparr>joint_X = [[9 / 10, 9 / 10, 11 / 10, 11 / 10], [1 / 2, 3 / 2, 1 / 2, 3 / 2]],
               joint_pmf = [1 / 4, 1 / 4, 1 / 4, 1 / 4],
               ShkPosn = [''perm'' \<mapsto> 0, ''tran'' \<mapsto> 1]\<rparr>"

definition bad_perm_dstn :: DiscreteDistribution where
  "bad_perm_dstn = \<lparr>X = [9 / 10, 12 / 10], pmf = [1 / 2, 1 / 2]\<rparr>"

text \<open>A tolerance test to run the setup with: equal to within one part in a million.\<close>

definition approx_1e6 :: "real \<Rightarrow> real \<Rightarrow> bool" where
  "approx_1e6 actual desired = (\<bar>actual - desired\<bar> < 1 / 1000000)"

section \<open>Shared lemmas\<close>

lemma ebind_Inr_iff: "ebind m f = Inr y \<longleftrightarrow> (\<exists>x. m = Inr x \<and> f x = Inr y)"
  by (cases m) (simp_all add: ebind_def)

lemma attr_Inr_iff: "attr v = Inr x \<longleftrightarrow> v = Some x"
  by (cases v) (simp_all add: attr_def)

lemma result_of_InrD: "result_of f r = Inr y \<Longrightarrow> \<exists>x. r = Inr x \<and> f x = y"
  by (cases r) (auto simp: result_of_def)

lemma not_isl_InrE: "\<not> isl r \<Longrightarrow> \<exists>x. r = Inr x"
  by (cases r) auto

lemmas check_defs = check_conditions_def verbosity_def check_AIC_def check_FHWC_def
  check_RIC_def check_GICRaw_def check_GICNrm_def check_GICLiv_def check_FVAC_def
  set_degenerate_def has_fcts_def attr_def core_check_condition_def

lemmas build_defs = build_facts_def build_infhor_facts_from_params_def
  build_recursive_facts_def prepared_stage_def ebind_def attr_def pydiv_def pypow_def Let_def
  add_fcts_def fresh_bilt_def mpc_fact_def

subsection \<open>What each check stores\<close>

lemma check_AIC_Inr:
  "check_AIC s = Inr s' \<Longrightarrow>
     \<exists>a. APF (bilt s) = Some a \<and> s' = s\<lparr>bilt := (bilt s)\<lparr>AIC := Some (a < 1)\<rparr>\<rparr>"
  by (auto simp: check_AIC_def core_check_condition_def ebind_Inr_iff attr_Inr_iff
      split: if_splits)

lemma check_FHWC_Inr:
  "check_FHWC s = Inr s' \<Longrightarrow>
     \<exists>a. FHWF (bilt s) = Some a \<and> s' = s\<lparr>bilt := (bilt s)\<lparr>FHWC := Some (a < 1)\<rparr>\<rparr>"
  by (auto simp: check_FHWC_def core_check_condition_def ebind_Inr_iff attr_Inr_iff
      split: if_splits)

lemma check_RIC_Inr:
  "check_RIC s = Inr s' \<Longrightarrow>
     \<exists>a. RPF (bilt s) = Some a \<and> s' = s\<lparr>bilt := (bilt s)\<lparr>RIC := Some (a < 1)\<rparr>\<rparr>"
  by (auto simp: check_RIC_def core_check_condition_def ebind_Inr_iff attr_Inr_iff
      split: if_splits)

lemma check_GICRaw_Inr:
  "check_GICRaw s = Inr s' \<Longrightarrow>
     \<exists>a. GPFRaw (bilt s) = Some a \<and> s' = s\<lparr>bilt := (bilt s)\<lparr>GICRaw := Some (a < 1)\<rparr>\<rparr>"
  by (auto simp: check_GICRaw_def core_check_condition_def ebind_Inr_iff attr_Inr_iff
      split: if_splits)

lemma check_GICLiv_Inr:
  "check_GICLiv s = Inr s' \<Longrightarrow>
     \<exists>a. GPFLiv (bilt s) = Some a \<and> s' = s\<lparr>bilt := (bilt s)\<lparr>GICLiv := Some (a < 1)\<rparr>\<rparr>"
  by (auto simp: check_GICLiv_def core_check_condition_def ebind_Inr_iff attr_Inr_iff
      split: if_splits)

lemma check_FVAC_Inr:
  "check_FVAC s = Inr s' \<Longrightarrow>
     \<exists>a. FVAF (bilt s) = Some a \<and> s' = s\<lparr>bilt := (bilt s)\<lparr>FVAC := Some (a < 1)\<rparr>\<rparr>"
  by (auto simp: check_FVAC_def core_check_condition_def ebind_Inr_iff attr_Inr_iff
      split: if_splits)

lemma check_GICNrm_Inr:
  "check_GICNrm s = Inr s' \<Longrightarrow>
     (\<not> pars_has_IncShkDstn (pars s) \<and> s' = s) \<or>
     (pars_has_IncShkDstn (pars s) \<and>
      (\<exists>a. GPFNrm (bilt s) = Some a \<and> s' = s\<lparr>bilt := (bilt s)\<lparr>GICNrm := Some (a \<le> 1)\<rparr>\<rparr>))"
  by (auto simp: check_GICNrm_def core_check_condition_def ebind_Inr_iff attr_Inr_iff
      split: if_splits)

lemma set_degenerate_Inr:
  "set_degenerate s = Inr s' \<Longrightarrow>
     \<exists>ric d. RIC (bilt s) = Some ric \<and> s' = s\<lparr>degenerate := Some d\<rparr> \<and>
       (if bilt_has_BoroCnstArt (bilt s) \<and> BoroCnstArt (pars s) \<noteq> None then d = (\<not> ric)
        else (\<not> ric \<and> d) \<or> (ric \<and> (\<exists>fhwc. FHWC (bilt s) = Some fhwc \<and> d = (\<not> fhwc))))"
  by (auto simp: set_degenerate_def ebind_Inr_iff attr_Inr_iff split: if_splits)

text \<open>A run of \<^verbatim>\<open>check_conditions\<close> that returns went through the seven checks in
  order.\<close>

lemma check_conditions_chain:
  assumes "check_conditions hv v s = Inr s'"
  obtains s1 s2 s3 s4 s5 s6 s7 where
    "check_AIC (s\<lparr>bilt := (bilt s)\<lparr>conditions := Some [], bilt_degenerate := Some False\<rparr>\<rparr>)
       = Inr s1"
    "check_FHWC s1 = Inr s2" "check_RIC s2 = Inr s3" "check_GICRaw s3 = Inr s4"
    "check_GICNrm s4 = Inr s5" "check_GICLiv s5 = Inr s6" "check_FVAC s6 = Inr s7"
    "set_degenerate s7 = Inr s'"
  using assms unfolding check_conditions_def Let_def ebind_Inr_iff by blast

text \<open>A perfect-foresight stage with its facts built passes through
  \<^verbatim>\<open>check_conditions\<close>, and the flag on the solution follows the rule of the source.\<close>

lemma check_conditions_PF:
  assumes "APF (bilt s) = Some a" "FHWF (bilt s) = Some f" "RPF (bilt s) = Some r"
    "GPFRaw (bilt s) = Some g" "GPFLiv (bilt s) = Some l" "FVAF (bilt s) = Some v"
    "set [''AIC_fcts'', ''FHWC_fcts'', ''RPF_fcts'', ''GICRaw_fcts'', ''GPFLiv_fcts'',
          ''FVAC_fcts''] \<subseteq> set (fcts (bilt s))"
    "\<not> pars_has_IncShkDstn (pars s)"
  shows "\<exists>s'. check_conditions False None s = Inr s' \<and>
           degenerate s' = Some (if bilt_has_BoroCnstArt (bilt s) \<and> BoroCnstArt (pars s) \<noteq> None
                                 then \<not> r < 1 else \<not> r < 1 \<or> \<not> f < 1)"
  using assms by (auto simp add: check_defs ebind_def Let_def)

subsection \<open>Square roots of the concrete stages\<close>

lemma sqrt_81: "(81 / 100 :: real) powr (1 / 2) = 9 / 10"
proof -
  have "sqrt (81 / 100 :: real) = 9 / 10"
    by (rule real_sqrt_unique) (simp_all add: power2_eq_square)
  then show ?thesis by (simp add: powr_half_sqrt)
qed

lemma apf_B_bounds:
  "99438 / 100000 < (103 / 100 * (96 / 100) :: real) powr (1 / 2)"
  "(103 / 100 * (96 / 100) :: real) powr (1 / 2) < 99439 / 100000"
proof -
  have e: "(103 / 100 * (96 / 100) :: real) powr (1 / 2) = sqrt (618 / 625)"
    by (simp add: powr_half_sqrt)
  have "(99438 / 100000 :: real) < sqrt (618 / 625)"
    by (rule real_less_rsqrt) (simp add: power2_eq_square)
  moreover have "sqrt (618 / 625 :: real) < 99439 / 100000"
    by (rule real_less_lsqrt) (simp_all add: power2_eq_square)
  ultimately show "99438 / 100000 < (103 / 100 * (96 / 100) :: real) powr (1 / 2)"
    "(103 / 100 * (96 / 100) :: real) powr (1 / 2) < 99439 / 100000"
    unfolding e by simp_all
qed

lemma apf_B_den: "1 + (618 / 625) powr (1 / 2) * 100 / 103 \<noteq> (0::real)"
proof -
  have "0 \<le> (618 / 625 :: real) powr (1 / 2)" by simp
  then have "0 \<le> (618 / 625 :: real) powr (1 / 2) * 100 / 103" by simp
  then have "0 < 1 + (618 / 625 :: real) powr (1 / 2) * 100 / 103" by linarith
  then show ?thesis by linarith
qed

section \<open>The claims\<close>

text \<open>
  Claim C10. Whenever \<^verbatim>\<open>check_conditions\<close> returns, the field
  \<^verbatim>\<open>bilt.degenerate\<close> of the stage is \<^verbatim>\<open>False\<close>, whatever the outcomes of the
  tests: the flag that follows the rule goes to the attribute \<^verbatim>\<open>degenerate\<close> of the
  solution object, and \<^verbatim>\<open>bilt.degenerate\<close> is not written again.
\<close>

theorem check_conditions_bilt_degenerate:
  assumes "check_conditions hv v s = Inr s'"
  shows "bilt_degenerate (bilt s') = Some False"
proof -
  define s0 where
    "s0 = s\<lparr>bilt := (bilt s)\<lparr>conditions := Some [], bilt_degenerate := Some False\<rparr>\<rparr>"
  from check_conditions_chain[OF assms] obtain s1 s2 s3 s4 s5 s6 s7 where
    c: "check_AIC s0 = Inr s1" "check_FHWC s1 = Inr s2" "check_RIC s2 = Inr s3"
       "check_GICRaw s3 = Inr s4" "check_GICNrm s4 = Inr s5" "check_GICLiv s5 = Inr s6"
       "check_FVAC s6 = Inr s7" "set_degenerate s7 = Inr s'"
    unfolding s0_def by blast
  have "bilt_degenerate (bilt s0) = Some False" by (simp add: s0_def)
  with check_AIC_Inr[OF c(1)] have "bilt_degenerate (bilt s1) = Some False" by auto
  with check_FHWC_Inr[OF c(2)] have "bilt_degenerate (bilt s2) = Some False" by auto
  with check_RIC_Inr[OF c(3)] have "bilt_degenerate (bilt s3) = Some False" by auto
  with check_GICRaw_Inr[OF c(4)] have "bilt_degenerate (bilt s4) = Some False" by auto
  with check_GICNrm_Inr[OF c(5)] have "bilt_degenerate (bilt s5) = Some False" by auto
  with check_GICLiv_Inr[OF c(6)] have "bilt_degenerate (bilt s6) = Some False" by auto
  with check_FVAC_Inr[OF c(7)] have "bilt_degenerate (bilt s7) = Some False" by auto
  with set_degenerate_Inr[OF c(8)] show ?thesis by auto
qed

lemma income_shock_stage_checks:
  "\<not> isl (check_conditions False None income_shock_stage)"
  by (simp add: income_shock_stage_def constrained_pars_def ebind_def Let_def fresh_bilt_def
      check_defs)

theorem check_conditions_bilt_degenerate_witness:
  "\<exists>s'. check_conditions False None income_shock_stage = Inr s' \<and>
        degenerate s' = Some True \<and> bilt_degenerate (bilt s') = Some False"
proof -
  from not_isl_InrE[OF income_shock_stage_checks] obtain s' where
    s': "check_conditions False None income_shock_stage = Inr s'" by blast
  have "result_of degenerate (check_conditions False None income_shock_stage) = Inr (Some True)"
    by (simp add: income_shock_stage_def constrained_pars_def ebind_def Let_def fresh_bilt_def
        check_defs result_of_def)
  with s' have "degenerate s' = Some True" by (simp add: result_of_def)
  with s' check_conditions_bilt_degenerate[OF s'] show ?thesis by blast
qed

text \<open>
  Claim C6. The claim: the flag is \<open>\<not> RIC\<close> whenever an artificial borrowing constraint is
  configured. The source tests \<^verbatim>\<open>hasattr(soln_crnt.bilt, "BoroCnstArt")\<close> and then
  reads \<^verbatim>\<open>soln_crnt.pars.BoroCnstArt\<close>; nothing in the file puts \<^verbatim>\<open>BoroCnstArt\<close> on
  \<^verbatim>\<open>bilt\<close>. On the stage with \<open>BoroCnstArt = 0\<close>, return factor 1 and discount factor
  0.81 the return impatience condition holds and the finite human wealth condition fails:
  the run takes the branch commented "No constraint" and sets the flag to \<open>True\<close>, where the
  claim gives \<open>\<not> RIC = False\<close>.
\<close>

theorem degenerate_flag_ignores_configured_constraint:
  "result_of (BoroCnstArt \<circ> pars)
     (ebind (build_infhor_facts_from_params constrained_stage) (check_conditions False None))
     = Inr (Some 0) \<and>
   result_of (RIC \<circ> bilt)
     (ebind (build_infhor_facts_from_params constrained_stage) (check_conditions False None))
     = Inr (Some True) \<and>
   result_of (FHWC \<circ> bilt)
     (ebind (build_infhor_facts_from_params constrained_stage) (check_conditions False None))
     = Inr (Some False) \<and>
   result_of degenerate
     (ebind (build_infhor_facts_from_params constrained_stage) (check_conditions False None))
     = Inr (Some True)"
  by (simp add: build_defs constrained_stage_def constrained_pars_def sqrt_81 result_of_def
      check_defs)

text \<open>
  Claim C4. The claim: when the stage being processed is a terminal-pseudo record,
  \<^verbatim>\<open>build_recursive_facts\<close> yields \<open>hNrm = 0\<close>, \<open>BoroCnstNat = 0\<close> and
  \<open>MPCmin = MPCmax = 1\<close> from the pinned values. On the stage that the preparation step
  leaves for a \<^verbatim>\<open>terminal_pseudo\<close> successor the solution object has no attribute
  \<^verbatim>\<open>stge_kind\<close>, and the function raises \<^verbatim>\<open>AttributeError\<close> at its first test of
  the status, before any pin is reached, alone or after
  \<^verbatim>\<open>build_infhor_facts_from_params\<close>.
\<close>

theorem terminal_pseudo_stage_raises:
  "stge_kind terminal_pseudo_stage = None \<and>
   build_recursive_facts terminal_pseudo_stage = Inl AttributeError \<and>
   build_facts terminal_pseudo_stage = Inl AttributeError"
  by (simp add: build_defs terminal_pseudo_stage_def scenario_B_pars_def result_of_def
      apf_B_den)

text \<open>
  The pins themselves. No path of the source file puts \<^verbatim>\<open>terminal_pseudo\<close> on
  \<^verbatim>\<open>soln_crnt.stge_kind\<close>; were it put there by hand, the pin \<^verbatim>\<open>hNrm_tp1 = -1.0\<close>
  on the solution object would still not be among the dictionaries handed to
  \<^verbatim>\<open>eval\<close>: with \<^verbatim>\<open>folw\<close> empty the name is undefined, and with the successor's
  quantities in \<^verbatim>\<open>folw\<close> the value read is the successor's, not the pin.
\<close>

lemma terminal_pseudo_status_set_by_hand:
  "build_facts (terminal_pseudo_stage\<lparr>stge_kind := Some terminal_pseudo\<rparr>) = Inl NameError"
  "result_of (hNrm \<circ> bilt)
     (build_facts (terminal_pseudo_stage\<lparr>stge_kind := Some terminal_pseudo,
                                          folw := terminal_folw\<rparr>))
     = Inr (Some (100 / 103))"
  by (simp_all add: build_defs terminal_pseudo_stage_def scenario_B_pars_def empty_folw_def
      terminal_folw_def result_of_def apf_B_den)

text \<open>The recursions of the first half of claim C4, for a stage that is not
  \<^verbatim>\<open>terminal_pseudo\<close> and whose successor quantities are finite.\<close>

lemma build_recursive_facts_recursions:
  assumes "build_recursive_facts s = Inr s'" "stge_kind s \<noteq> Some terminal_pseudo"
    "hNrm_tp1 (folw s) = Some h" "MPCmin_tp1 (folw s) = Some (Fin mn)"
    "MPCmax_tp1 (folw s) = Some (Fin mx)" "RPF (bilt s) = Some r"
  shows "hNrm (bilt s') = Some ((PermGroFac (pars s) / Rfree (pars s)) * (1 + h)) \<and>
         MPCmin (bilt s') = Some (1 / (1 + r / mn)) \<and>
         MPCmax (bilt s') = Some (1 / (1 + r / mx))"
  using assms
  by (cases "mNrmMin_tp1 (folw s)"; cases "stge_kind s")
     (auto simp: build_recursive_facts_def Let_def ebind_def attr_def pydiv_def mpc_fact_def
        add_fcts_def split: if_splits)

text \<open>
  Claim C5, as amended. For scenario B (\<open>CRRA = 2\<close>, \<open>Rfree = 1.03\<close>, \<open>DiscFac = 0.96\<close>,
  \<open>LivPrb = 1\<close>, \<open>PermGroFac = 1\<close>, no artificial constraint, successor the terminal
  bootstrap) the facts are \<open>APF = (1.03 * 0.96) powr (1/2)\<close>, between 0.99438 and 0.99439,
  \<open>RPF = APF / 1.03\<close>, \<open>FHWF = 1 / 1.03\<close>, human wealth \<open>hNrm = (1 / 1.03) * (1 + 0)\<close>,
  the infinite-horizon human wealth \<open>hNrmInf = 1 / (1 - FHWF)\<close>, and the flag after
  \<^verbatim>\<open>check_conditions\<close> is \<open>False\<close>.
\<close>

theorem scenario_B_facts:
  "\<exists>s s' a. build_facts scenario_B = Inr s \<and>
     APF (bilt s) = Some a \<and> a = (103 / 100 * (96 / 100)) powr (1 / 2) \<and>
     99438 / 100000 < a \<and> a < 99439 / 100000 \<and>
     RPF (bilt s) = Some (a / (103 / 100)) \<and>
     FHWF (bilt s) = Some (1 / (103 / 100)) \<and>
     hNrm (bilt s) = Some (1 / (103 / 100)) \<and>
     hNrmInf (bilt s) = Some (Fin (1 / (1 - 1 / (103 / 100)))) \<and>
     check_conditions False None s = Inr s' \<and> degenerate s' = Some False"
proof -
  define a :: real where "a = (103 / 100 * (96 / 100)) powr (1 / 2)"
  have "result_of (\<lambda>s. (APF (bilt s), RPF (bilt s), FHWF (bilt s), hNrm (bilt s),
                   hNrmInf (bilt s), GPFRaw (bilt s), GPFLiv (bilt s), FVAF (bilt s),
                   set [''AIC_fcts'', ''FHWC_fcts'', ''RPF_fcts'', ''GICRaw_fcts'',
                        ''GPFLiv_fcts'', ''FVAC_fcts''] \<subseteq> set (fcts (bilt s)),
                   pars_has_IncShkDstn (pars s), BoroCnstArt (pars s)))
     (build_facts scenario_B) =
   Inr (Some a, Some (a / (103 / 100)), Some (1 / (103 / 100)), Some (1 / (103 / 100)),
        Some (Fin (1 / (1 - 1 / (103 / 100)))), Some a, Some a, Some (96 / 100),
        True, False, None)"
    unfolding a_def
    by (simp add: build_defs scenario_B_def scenario_B_pars_def terminal_folw_def
        result_of_def apf_B_den)
  from result_of_InrD[OF this] obtain s where s: "build_facts scenario_B = Inr s"
    and t: "(APF (bilt s), RPF (bilt s), FHWF (bilt s), hNrm (bilt s),
                   hNrmInf (bilt s), GPFRaw (bilt s), GPFLiv (bilt s), FVAF (bilt s),
                   set [''AIC_fcts'', ''FHWC_fcts'', ''RPF_fcts'', ''GICRaw_fcts'',
                        ''GPFLiv_fcts'', ''FVAC_fcts''] \<subseteq> set (fcts (bilt s)),
                   pars_has_IncShkDstn (pars s), BoroCnstArt (pars s)) =
       (Some a, Some (a / (103 / 100)), Some (1 / (103 / 100)), Some (1 / (103 / 100)),
        Some (Fin (1 / (1 - 1 / (103 / 100)))), Some a, Some a, Some (96 / 100),
        True, False, None)" by blast
  have p: "APF (bilt s) = Some a" "RPF (bilt s) = Some (a / (103 / 100))"
      "FHWF (bilt s) = Some (1 / (103 / 100))" "hNrm (bilt s) = Some (1 / (103 / 100))"
      "hNrmInf (bilt s) = Some (Fin (1 / (1 - 1 / (103 / 100))))"
      "GPFRaw (bilt s) = Some a" "GPFLiv (bilt s) = Some a" "FVAF (bilt s) = Some (96 / 100)"
      "set [''AIC_fcts'', ''FHWC_fcts'', ''RPF_fcts'', ''GICRaw_fcts'', ''GPFLiv_fcts'',
          ''FVAC_fcts''] \<subseteq> set (fcts (bilt s))"
      "\<not> pars_has_IncShkDstn (pars s)" "BoroCnstArt (pars s) = None"
    using t by simp_all
  have b: "99438 / 100000 < a" "a < 99439 / 100000"
    unfolding a_def by (rule apf_B_bounds)+
  from check_conditions_PF[OF p(1) p(3) p(2) p(6) p(7) p(8) p(9) p(10)]
  obtain s' where s': "check_conditions False None s = Inr s'"
    "degenerate s' = Some (\<not> a / (103 / 100) < 1 \<or> \<not> (1 / (103 / 100) :: real) < 1)"
    using p(11) by auto
  have "a / (103 / 100) < 1" using b by simp
  with s' have "degenerate s' = Some False" by simp
  with s s' p b show ?thesis unfolding a_def by blast
qed

text \<open>Claim C5 as stated fails: in scenario B the human wealth that the code builds is
  \<open>FHWF * (1 + 0) = 100/103\<close>, not \<open>FHWF / (1 - FHWF) = 100/3\<close>, and \<open>APF\<close> is below
  0.9944, not 0.99499.\<close>

theorem scenario_B_hNrm_counterexample:
  "result_of (hNrm \<circ> bilt) (build_facts scenario_B) = Inr (Some (100 / 103)) \<and>
   result_of (FHWF \<circ> bilt) (build_facts scenario_B) = Inr (Some (100 / 103)) \<and>
   (100 / 103 :: real) \<noteq> (100 / 103) / (1 - 100 / 103) \<and>
   result_of (APF \<circ> bilt) (build_facts scenario_B)
     = Inr (Some ((103 / 100 * (96 / 100)) powr (1 / 2))) \<and>
   (103 / 100 * (96 / 100) :: real) powr (1 / 2) < 9944 / 10000"
proof -
  have "(103 / 100 * (96 / 100) :: real) powr (1 / 2) < 9944 / 10000"
    using apf_B_bounds(2) by linarith
  then show ?thesis
    by (simp add: build_defs scenario_B_def scenario_B_pars_def terminal_folw_def
        result_of_def apf_B_den)
qed

subsection \<open>What the gridpoint functions return\<close>

lemma list_get_Inr_iff: "list_get xs i = Inr x \<longleftrightarrow> i < length xs \<and> x = xs ! i"
  by (auto simp: list_get_def)

lemma name_lookup1_Inr_iff: "name_lookup [v] = Inr x \<longleftrightarrow> v = Some x"
  by (cases v) simp_all

lemma np_add_same_length:
  "length xs = length ys \<Longrightarrow> np_add xs ys = Inr zs \<Longrightarrow>
     length zs = length xs \<and> (\<forall>i<length xs. zs ! i = xs ! i + ys ! i)"
  by (auto simp: np_add_def)

lemma get_source_points_via_EGM_Inr:
  assumes "get_source_points_via_EGM v a s = Inr ((cs', ms'), s1)"
  shows "\<exists>nat ms. BoroCnstNat (bilt s) = Some nat \<and>
           np_add (map (u_dc_Nvrs (bilt s)) v) a = Inr ms \<and>
           cs' = 0 # map (u_dc_Nvrs (bilt s)) v \<and> ms' = nat # ms \<and>
           s1 = s\<lparr>bilt := (bilt s)\<lparr>cNrm := Some (map (u_dc_Nvrs (bilt s)) v), mNrm := Some ms\<rparr>\<rparr>"
  using assms
  by (auto simp: get_source_points_via_EGM_def Let_def ebind_Inr_iff attr_Inr_iff)

lemma make_linear_cFunc_Inr:
  "make_linear_cFunc ms cs s = Inr f \<Longrightarrow>
     \<exists>il sl. cFuncLimitIntercept (bilt s) = Some il \<and> cFuncLimitSlope (bilt s) = Some sl \<and>
       f = LinearInterp ms cs (Some il) (Some sl)"
  by (auto simp: make_linear_cFunc_def ebind_Inr_iff attr_Inr_iff)



lemma use_points_for_interpolation_Inr:
  assumes "use_points_for_interpolation cs ms interp s = Inr (sol, s')"
  shows "\<exists>unc mn. interp ms cs s = Inr unc \<and> mNrmMin (bilt s) = Some mn \<and>
           sol_cFunc sol = (case BoroCnstArt (pars s) of None \<Rightarrow> unc
              | Some art \<Rightarrow> LowerEnvelope unc (LinearInterp [mn, mn + 1] [0, 1] None None)) \<and>
           dm (sol_vFunc sol) = MargValueFuncCRRA (sol_cFunc sol) (CRRA (pars s)) \<and>
           sol_vPfunc sol = dm (sol_vFunc sol) \<and>
           sol_mNrmMin sol = mn \<and> sol_CRRA sol = CRRA (pars s) \<and>
           vFunc (bilt s') = Some (sol_vFunc sol) \<and>
           cNrm (bilt s') = cNrm (bilt s) \<and> mNrm (bilt s') = mNrm (bilt s)"
proof -
  from assms obtain unc where unc: "interp ms cs s = Inr unc"
    by (cases "interp ms cs s") (simp_all add: use_points_for_interpolation_def Let_def ebind_def)
  show ?thesis
  proof (cases "BoroCnstArt (pars s)")
    case None
    with assms unc show ?thesis
      by (cases "mNrmMin (bilt s)")
         (auto simp: use_points_for_interpolation_def Let_def ebind_def attr_def)
  next
    case (Some art)
    with assms unc show ?thesis
      by (cases "mNrmMin (bilt s)")
         (auto simp: use_points_for_interpolation_def Let_def ebind_def attr_def)
  qed
qed


text \<open>
  Claim C1. In \<^verbatim>\<open>make_sol_using_EGM\<close> of the basic solver the consumption points are
  the derivative-inverse of marginal utility applied to the first derivative
  \<^verbatim>\<open>v_post_choice_t[1]\<close> of the post-choice value, the market resources are that
  consumption plus the asset gridpoints, gridpoint by gridpoint, and the point
  (natural borrowing constraint, 0) is the first interpolation point of the unconstrained
  consumption function, which is the consumption function itself without an artificial
  constraint and the first argument of the lower envelope with one.
\<close>

theorem EGM_source_points:
  assumes "make_sol_using_EGM s = Inr (sol, s')"
  shows "\<exists>v a nat il sl cs ms.
           v_post_choice_t (E_t s) = Some v \<and> 1 < length v \<and>
           aNrmGrid (bilt s) = Some a \<and> BoroCnstNat (bilt s) = Some nat \<and>
           cs = map (u_dc_Nvrs (bilt s)) (v ! 1) \<and> np_add cs a = Inr ms \<and>
           cNrm (bilt s') = Some cs \<and> mNrm (bilt s') = Some ms \<and>
           (length a = length (v ! 1) \<longrightarrow>
              length cs = length a \<and> length ms = length a \<and>
              (\<forall>i<length a. cs ! i = u_dc_Nvrs (bilt s) (v ! 1 ! i) \<and> ms ! i = cs ! i + a ! i)) \<and>
           (case BoroCnstArt (pars s) of
              None \<Rightarrow> sol_cFunc sol = LinearInterp (nat # ms) (0 # cs) (Some il) (Some sl)
            | Some art \<Rightarrow> \<exists>g. sol_cFunc sol =
                 LowerEnvelope (LinearInterp (nat # ms) (0 # cs) (Some il) (Some sl)) g)"
proof -
  from assms obtain v where v: "v_post_choice_t (E_t s) = Some v"
    by (cases "v_post_choice_t (E_t s)") (simp_all add: make_sol_using_EGM_def ebind_def attr_def)
  from assms v have lv: "1 < length v"
    by (cases "1 < length v") (simp_all add: make_sol_using_EGM_def ebind_def attr_def list_get_def)
  from assms v lv obtain a where a: "aNrmGrid (bilt s) = Some a"
    by (cases "aNrmGrid (bilt s)")
       (simp_all add: make_sol_using_EGM_def ebind_def attr_def list_get_def Let_def)
  define s1 where "s1 = s\<lparr>bilt := (bilt s)\<lparr>cNrmGrid := Some (map (u_dc_Nvrs (bilt s)) (v ! 1))\<rparr>\<rparr>"
  from assms v lv a have i: "interpolating_EGM_solution (v ! 1) a make_linear_cFunc s1 = Inr (sol, s')"
    by (cases "CubicBool (bilt s)")
       (simp_all add: make_sol_using_EGM_def ebind_def attr_def list_get_def Let_def s1_def)
  from i obtain cs' ms' s2 where g: "get_source_points_via_EGM (v ! 1) a s1 = Inr ((cs', ms'), s2)"
    and u: "use_points_for_interpolation cs' ms' make_linear_cFunc s2 = Inr (sol, s')"
    unfolding interpolating_EGM_solution_def ebind_Inr_iff by (auto split: prod.splits)
  define cs where "cs = map (u_dc_Nvrs (bilt s)) (v ! 1)"
  from get_source_points_via_EGM_Inr[OF g] obtain nat ms where
    n: "BoroCnstNat (bilt s) = Some nat" and ms: "np_add cs a = Inr ms"
    and c': "cs' = 0 # cs" and m': "ms' = nat # ms"
    and s2: "s2 = s1\<lparr>bilt := (bilt s1)\<lparr>cNrm := Some cs, mNrm := Some ms\<rparr>\<rparr>"
    by (auto simp: s1_def cs_def)
  from use_points_for_interpolation_Inr[OF u] obtain unc mn where
    unc: "make_linear_cFunc ms' cs' s2 = Inr unc"
    and cf: "sol_cFunc sol = (case BoroCnstArt (pars s2) of None \<Rightarrow> unc
              | Some art \<Rightarrow> LowerEnvelope unc (LinearInterp [mn, mn + 1] [0, 1] None None))"
    and k: "cNrm (bilt s') = cNrm (bilt s2)" "mNrm (bilt s') = mNrm (bilt s2)"
    by auto
  from make_linear_cFunc_Inr[OF unc] obtain il sl where
    l: "unc = LinearInterp (nat # ms) (0 # cs) (Some il) (Some sl)"
    by (auto simp: c' m')
  have p: "pars s2 = pars s" by (simp add: s2 s1_def)
  have "length a = length (v ! 1) \<longrightarrow>
              length cs = length a \<and> length ms = length a \<and>
              (\<forall>i<length a. cs ! i = u_dc_Nvrs (bilt s) (v ! 1 ! i) \<and> ms ! i = cs ! i + a ! i)"
    using np_add_same_length[of cs a ms] ms by (auto simp: cs_def)
  moreover have "cNrm (bilt s') = Some cs" "mNrm (bilt s') = Some ms"
    using k by (simp_all add: s2)
  moreover have "case BoroCnstArt (pars s) of
              None \<Rightarrow> sol_cFunc sol = LinearInterp (nat # ms) (0 # cs) (Some il) (Some sl)
            | Some art \<Rightarrow> \<exists>g. sol_cFunc sol =
                 LowerEnvelope (LinearInterp (nat # ms) (0 # cs) (Some il) (Some sl)) g"
    using cf l p by (auto split: option.splits)
  ultimately show ?thesis using v lv a n ms unfolding cs_def by blast
qed

lemma egm_stage_runs: "\<not> isl (make_sol_using_EGM egm_stage)"
  by (simp add: make_sol_using_EGM_def interpolating_EGM_solution_def
      get_source_points_via_EGM_def use_points_for_interpolation_def make_linear_cFunc_def
      egm_stage_def fresh_bilt_def fresh_E_t_def scenario_B_pars_def
      ebind_def attr_def list_get_def np_add_def Let_def)

theorem EGM_source_points_witness:
  "\<exists>sol s'. make_sol_using_EGM egm_stage = Inr (sol, s') \<and>
     cNrm (bilt s') = Some [1, 1] \<and> mNrm (bilt s') = Some [2, 3] \<and>
     sol_cFunc sol = LinearInterp [0, 2, 3] [0, 1, 1] (Some 0) (Some (1 / 2))"
proof -
  from not_isl_InrE[OF egm_stage_runs] obtain sol s' where
    r: "make_sol_using_EGM egm_stage = Inr (sol, s')" by (metis surj_pair)
  have e: "v_post_choice_t (E_t egm_stage) = Some [[- 1, - 1], [1, 1], [- 2, - 2]]"
    "aNrmGrid (bilt egm_stage) = Some [1, 2]" "BoroCnstNat (bilt egm_stage) = Some 0"
    "BoroCnstArt (pars egm_stage) = None"
    "u_dc_Nvrs (bilt egm_stage) = (\<lambda>v. v powr (- 1 / 2))"
    by (simp_all add: egm_stage_def fresh_bilt_def fresh_E_t_def scenario_B_pars_def)
  from EGM_source_points[OF r] obtain v a nat il sl cs ms where
    w: "v_post_choice_t (E_t egm_stage) = Some v" "aNrmGrid (bilt egm_stage) = Some a"
       "BoroCnstNat (bilt egm_stage) = Some nat"
       "cs = map (u_dc_Nvrs (bilt egm_stage)) (v ! 1)" "np_add cs a = Inr ms"
       "cNrm (bilt s') = Some cs" "mNrm (bilt s') = Some ms"
       "case BoroCnstArt (pars egm_stage) of
              None \<Rightarrow> sol_cFunc sol = LinearInterp (nat # ms) (0 # cs) (Some il) (Some sl)
            | Some art \<Rightarrow> \<exists>g. sol_cFunc sol =
                 LowerEnvelope (LinearInterp (nat # ms) (0 # cs) (Some il) (Some sl)) g"
    by blast
  from w(1,2,3) e have v: "v = [[- 1, - 1], [1, 1], [- 2, - 2]]" "a = [1, 2]" "nat = 0"
    by simp_all
  from w(4) v e have cs: "cs = [1, 1]" by simp
  from w(5) cs v have ms: "ms = [2, 3]" by (simp add: np_add_def)
  from w(8) e have c: "sol_cFunc sol = LinearInterp (nat # ms) (0 # cs) (Some il) (Some sl)"
    by simp
  from r have "result_of (sol_cFunc \<circ> fst) (make_sol_using_EGM egm_stage) = Inr (sol_cFunc sol)"
    by (simp add: result_of_def)
  moreover have "result_of (sol_cFunc \<circ> fst) (make_sol_using_EGM egm_stage)
      = Inr (LinearInterp [0, 2, 3] [0, 1, 1] (Some 0) (Some (1 / 2)))"
    by (simp add: make_sol_using_EGM_def interpolating_EGM_solution_def
      get_source_points_via_EGM_def use_points_for_interpolation_def make_linear_cFunc_def
      egm_stage_def fresh_bilt_def fresh_E_t_def scenario_B_pars_def
      ebind_def attr_def list_get_def np_add_def Let_def result_of_def)
  ultimately have "sol_cFunc sol = LinearInterp [0, 2, 3] [0, 1, 1] (Some 0) (Some (1 / 2))"
    by simp
  with r w(6,7) cs ms show ?thesis by blast
qed

text \<open>
  Claim C2. The solution that \<^verbatim>\<open>use_points_for_interpolation\<close> returns has as its
  marginal value function \<^verbatim>\<open>MargValueFuncCRRA\<close> of the very consumption function it
  returns, with the stage's risk aversion, so that at every \<open>m\<close> the marginal value is the
  marginal utility of \<open>cFunc(m)\<close>; \<^verbatim>\<open>vPfunc\<close> is the same object.
\<close>

theorem marginal_value_from_cFunc:
  assumes "use_points_for_interpolation cs ms interp s = Inr (sol, s')"
  shows "dm (sol_vFunc sol) = MargValueFuncCRRA (sol_cFunc sol) (CRRA (pars s)) \<and>
         sol_vPfunc sol = dm (sol_vFunc sol) \<and>
         (\<forall>m. evalf uP prim (dm (sol_vFunc sol)) m =
               map_option (uP (CRRA (pars s))) (evalf uP prim (sol_cFunc sol) m))"
proof -
  from use_points_for_interpolation_Inr[OF assms]
  have d: "dm (sol_vFunc sol) = MargValueFuncCRRA (sol_cFunc sol) (CRRA (pars s))"
    and v: "sol_vPfunc sol = dm (sol_vFunc sol)" by auto
  show ?thesis using d v by simp
qed

lemma egm_stage_interpolates:
  "\<not> isl (use_points_for_interpolation [0, 1, 1] [0, 2, 3] make_linear_cFunc egm_stage)"
  by (simp add: use_points_for_interpolation_def make_linear_cFunc_def
      egm_stage_def fresh_bilt_def fresh_E_t_def scenario_B_pars_def
      ebind_def attr_def Let_def)

theorem marginal_value_from_cFunc_witness:
  "\<exists>sol s'. use_points_for_interpolation [0, 1, 1] [0, 2, 3] make_linear_cFunc egm_stage
       = Inr (sol, s') \<and>
     dm (sol_vFunc sol) = MargValueFuncCRRA (sol_cFunc sol) 2 \<and>
     evalf (\<lambda>rho c. c powr (- rho)) (\<lambda>f m. Some m) (dm (sol_vFunc sol)) 3
       = map_option (\<lambda>c. c powr (- 2))
           (evalf (\<lambda>rho c. c powr (- rho)) (\<lambda>f m. Some m) (sol_cFunc sol) 3)"
proof -
  from not_isl_InrE[OF egm_stage_interpolates] obtain sol s' where
    r: "use_points_for_interpolation [0, 1, 1] [0, 2, 3] make_linear_cFunc egm_stage
          = Inr (sol, s')" by (metis surj_pair)
  have "CRRA (pars egm_stage) = 2" by (simp add: egm_stage_def scenario_B_pars_def)
  with marginal_value_from_cFunc[OF r, of "\<lambda>rho c. c powr (- rho)" "\<lambda>f m. Some m"] r
  show ?thesis by auto
qed

text \<open>
  Claim C7, as amended. Whenever \<^verbatim>\<open>check_conditions\<close> returns, a boolean is stored
  on \<^verbatim>\<open>bilt\<close> for each of AIC, FHWC, RIC, GICRaw, GICLiv and FVAC (the factor below 1),
  and for GICNrm (the factor at most 1) when \<^verbatim>\<open>pars\<close> has an income shock
  distribution; without one GICNrm is left as it was, and WRIC is left as it was in
  every case.
\<close>

theorem check_conditions_stores:
  assumes "check_conditions hv v s = Inr s'"
  shows "(\<exists>a. APF (bilt s) = Some a \<and> AIC (bilt s') = Some (a < 1)) \<and>
         (\<exists>a. FHWF (bilt s) = Some a \<and> FHWC (bilt s') = Some (a < 1)) \<and>
         (\<exists>a. RPF (bilt s) = Some a \<and> RIC (bilt s') = Some (a < 1)) \<and>
         (\<exists>a. GPFRaw (bilt s) = Some a \<and> GICRaw (bilt s') = Some (a < 1)) \<and>
         (\<exists>a. GPFLiv (bilt s) = Some a \<and> GICLiv (bilt s') = Some (a < 1)) \<and>
         (\<exists>a. FVAF (bilt s) = Some a \<and> FVAC (bilt s') = Some (a < 1)) \<and>
         (if pars_has_IncShkDstn (pars s)
          then \<exists>a. GPFNrm (bilt s) = Some a \<and> GICNrm (bilt s') = Some (a \<le> 1)
          else GICNrm (bilt s') = GICNrm (bilt s)) \<and>
         WRIC (bilt s') = WRIC (bilt s)"
proof -
  define s0 where
    "s0 = s\<lparr>bilt := (bilt s)\<lparr>conditions := Some [], bilt_degenerate := Some False\<rparr>\<rparr>"
  from check_conditions_chain[OF assms] obtain s1 s2 s3 s4 s5 s6 s7 where
    c: "check_AIC s0 = Inr s1" "check_FHWC s1 = Inr s2" "check_RIC s2 = Inr s3"
       "check_GICRaw s3 = Inr s4" "check_GICNrm s4 = Inr s5" "check_GICLiv s5 = Inr s6"
       "check_FVAC s6 = Inr s7" "set_degenerate s7 = Inr s'"
    unfolding s0_def by blast
  from check_AIC_Inr[OF c(1)] obtain a1 where
    1: "APF (bilt s0) = Some a1" "s1 = s0\<lparr>bilt := (bilt s0)\<lparr>AIC := Some (a1 < 1)\<rparr>\<rparr>"
    by blast
  from check_FHWC_Inr[OF c(2)] obtain a2 where
    2: "FHWF (bilt s1) = Some a2" "s2 = s1\<lparr>bilt := (bilt s1)\<lparr>FHWC := Some (a2 < 1)\<rparr>\<rparr>"
    by blast
  from check_RIC_Inr[OF c(3)] obtain a3 where
    3: "RPF (bilt s2) = Some a3" "s3 = s2\<lparr>bilt := (bilt s2)\<lparr>RIC := Some (a3 < 1)\<rparr>\<rparr>"
    by blast
  from check_GICRaw_Inr[OF c(4)] obtain a4 where
    4: "GPFRaw (bilt s3) = Some a4" "s4 = s3\<lparr>bilt := (bilt s3)\<lparr>GICRaw := Some (a4 < 1)\<rparr>\<rparr>"
    by blast
  from check_GICLiv_Inr[OF c(6)] obtain a6 where
    6: "GPFLiv (bilt s5) = Some a6" "s6 = s5\<lparr>bilt := (bilt s5)\<lparr>GICLiv := Some (a6 < 1)\<rparr>\<rparr>"
    by blast
  from check_FVAC_Inr[OF c(7)] obtain a7 where
    7: "FVAF (bilt s6) = Some a7" "s7 = s6\<lparr>bilt := (bilt s6)\<lparr>FVAC := Some (a7 < 1)\<rparr>\<rparr>"
    by blast
  from set_degenerate_Inr[OF c(8)] obtain d where 8: "s' = s7\<lparr>degenerate := Some d\<rparr>"
    by blast
  have p4: "pars s4 = pars s" "GPFNrm (bilt s4) = GPFNrm (bilt s)"
    "GICNrm (bilt s4) = GICNrm (bilt s)"
    by (simp_all add: 4(2) 3(2) 2(2) 1(2) s0_def)
  show ?thesis
  proof (cases "pars_has_IncShkDstn (pars s)")
    case True
    with check_GICNrm_Inr[OF c(5)] p4 obtain a5 where
      5: "GPFNrm (bilt s4) = Some a5" "s5 = s4\<lparr>bilt := (bilt s4)\<lparr>GICNrm := Some (a5 \<le> 1)\<rparr>\<rparr>"
      by auto
    have e: "bilt s' = (bilt s0)\<lparr>AIC := Some (a1 < 1), FHWC := Some (a2 < 1),
              RIC := Some (a3 < 1), GICRaw := Some (a4 < 1), GICNrm := Some (a5 \<le> 1),
              GICLiv := Some (a6 < 1), FVAC := Some (a7 < 1)\<rparr>"
      by (simp add: 8 7(2) 6(2) 5(2) 4(2) 3(2) 2(2) 1(2))
    have f: "APF (bilt s) = Some a1" "FHWF (bilt s) = Some a2" "RPF (bilt s) = Some a3"
      "GPFRaw (bilt s) = Some a4" "GPFNrm (bilt s) = Some a5" "GPFLiv (bilt s) = Some a6"
      "FVAF (bilt s) = Some a7"
      using 1(1) 2(1) 3(1) 4(1) 5(1) 6(1) 7(1)
      by (simp_all add: 6(2) 5(2) 4(2) 3(2) 2(2) 1(2) s0_def)
    show ?thesis using True f by (simp add: e s0_def)
  next
    case False
    with check_GICNrm_Inr[OF c(5)] p4 have 5: "s5 = s4" by auto
    have e: "bilt s' = (bilt s0)\<lparr>AIC := Some (a1 < 1), FHWC := Some (a2 < 1),
              RIC := Some (a3 < 1), GICRaw := Some (a4 < 1),
              GICLiv := Some (a6 < 1), FVAC := Some (a7 < 1)\<rparr>"
      by (simp add: 8 7(2) 6(2) 5 4(2) 3(2) 2(2) 1(2))
    have f: "APF (bilt s) = Some a1" "FHWF (bilt s) = Some a2" "RPF (bilt s) = Some a3"
      "GPFRaw (bilt s) = Some a4" "GPFLiv (bilt s) = Some a6" "FVAF (bilt s) = Some a7"
      using 1(1) 2(1) 3(1) 4(1) 6(1) 7(1)
      by (simp_all add: 6(2) 5 4(2) 3(2) 2(2) 1(2) s0_def)
    show ?thesis using False f by (simp add: e s0_def)
  qed
qed

theorem check_conditions_stores_witness:
  "\<exists>s'. check_conditions False None income_shock_stage = Inr s' \<and>
     AIC (bilt s') = Some True \<and> FHWC (bilt s') = Some False \<and> RIC (bilt s') = Some True \<and>
     GICRaw (bilt s') = Some True \<and> GICLiv (bilt s') = Some True \<and>
     FVAC (bilt s') = Some True \<and> GICNrm (bilt s') = Some True \<and> WRIC (bilt s') = None"
proof -
  from not_isl_InrE[OF income_shock_stage_checks] obtain s' where
    s': "check_conditions False None income_shock_stage = Inr s'" by blast
  have e: "APF (bilt income_shock_stage) = Some (9 / 10)"
    "FHWF (bilt income_shock_stage) = Some 1" "RPF (bilt income_shock_stage) = Some (9 / 10)"
    "GPFRaw (bilt income_shock_stage) = Some (9 / 10)"
    "GPFLiv (bilt income_shock_stage) = Some (9 / 10)"
    "FVAF (bilt income_shock_stage) = Some (81 / 100)"
    "GPFNrm (bilt income_shock_stage) = Some (91 / 100)"
    "WRIC (bilt income_shock_stage) = None"
    "pars_has_IncShkDstn (pars income_shock_stage)"
    by (simp_all add: income_shock_stage_def fresh_bilt_def constrained_pars_def)
  from check_conditions_stores[OF s'] e s' show ?thesis by auto
qed

text \<open>Claim C7 as stated fails: on an income-shock stage whose \<open>WRPF\<close> is built, the
  run stores the normalized growth condition but no result for WRIC.\<close>

theorem check_conditions_WRIC_counterexample:
  "WRPF (bilt income_shock_stage) = Some (9 / 40) \<and>
   soln_has_IncShkDstn income_shock_stage \<and>
   result_of (GICNrm \<circ> bilt) (check_conditions False None income_shock_stage)
     = Inr (Some True) \<and>
   result_of (WRIC \<circ> bilt) (check_conditions False None income_shock_stage) = Inr None"
  by (simp add: income_shock_stage_def constrained_pars_def ebind_def Let_def fresh_bilt_def
      check_defs result_of_def)

text \<open>
  Claim C8. The setup of an income-shock stage returns only when the probability-weighted
  means of the permanent and of the transitory shock values both pass the tolerance test
  against 1; when one of the means fails the test, the setup raises.
\<close>

theorem mean_one_validation:
  "(\<forall>r. ConsIndShockSetupEOP_init approx I P T s = Inr r \<longrightarrow>
      (\<exists>pm tm. E_dot (pmf P) (X P) = Inr pm \<and> approx pm 1 \<and>
               E_dot (pmf T) (X T) = Inr tm \<and> approx tm 1)) \<and>
   ((\<exists>pm. E_dot (pmf P) (X P) = Inr pm \<and> \<not> approx pm 1) \<or>
    (\<exists>tm. E_dot (pmf T) (X T) = Inr tm \<and> \<not> approx tm 1) \<longrightarrow>
      isl (ConsIndShockSetupEOP_init approx I P T s))"
proof -
  have a: "\<exists>pm tm. E_dot (pmf P) (X P) = Inr pm \<and> approx pm 1 \<and>
               E_dot (pmf T) (X T) = Inr tm \<and> approx tm 1"
    if "ConsIndShockSetupEOP_init approx I P T s = Inr r" for r
  proof -
    from that obtain pm tm where
      "E_dot (pmf P) (X P) = Inr pm" "assert_approx_equal approx pm 1 = Inr ()"
      "E_dot (pmf T) (X T) = Inr tm" "assert_approx_equal approx tm 1 = Inr ()"
      unfolding ConsIndShockSetupEOP_init_def ebind_Inr_iff by auto
    then show ?thesis by (auto simp: assert_approx_equal_def split: if_splits)
  qed
  have b: "isl (ConsIndShockSetupEOP_init approx I P T s)"
    if "(\<exists>pm. E_dot (pmf P) (X P) = Inr pm \<and> \<not> approx pm 1) \<or>
        (\<exists>tm. E_dot (pmf T) (X T) = Inr tm \<and> \<not> approx tm 1)"
  proof (cases "ConsIndShockSetupEOP_init approx I P T s")
    case (Inl e)
    then show ?thesis by simp
  next
    case (Inr r)
    from a[OF Inr] that show ?thesis by auto
  qed
  from a b show ?thesis by blast
qed

lemmas init_defs = ConsIndShockSetupEOP_init_def ebind_def dict_get_def list_get_def E_dot_def
  assert_approx_equal_def np_min_def np_max_def np_mul_def masked_sum_def approx_1e6_def
  perm_dstn_def tran_dstn_def inc_dstn_def bad_perm_dstn_def

lemma init_ok:
  "\<not> isl (ConsIndShockSetupEOP_init approx_1e6 inc_dstn perm_dstn tran_dstn egm_stage)"
  by (simp add: init_defs)

lemma init_bad: "E_dot (pmf bad_perm_dstn) (X bad_perm_dstn) = Inr (105 / 100)"
  "\<not> approx_1e6 (105 / 100) 1"
  by (simp_all add: init_defs)

theorem mean_one_validation_witness:
  "(\<exists>r. ConsIndShockSetupEOP_init approx_1e6 inc_dstn perm_dstn tran_dstn egm_stage = Inr r) \<and>
   approx_1e6 1 1 \<and>
   E_dot (pmf perm_dstn) (X perm_dstn) = Inr 1 \<and> E_dot (pmf tran_dstn) (X tran_dstn) = Inr 1 \<and>
   E_dot (pmf bad_perm_dstn) (X bad_perm_dstn) = Inr (105 / 100) \<and>
   \<not> approx_1e6 (105 / 100) 1 \<and>
   isl (ConsIndShockSetupEOP_init approx_1e6 inc_dstn bad_perm_dstn tran_dstn egm_stage)"
proof -
  from not_isl_InrE[OF init_ok] obtain r where
    r: "ConsIndShockSetupEOP_init approx_1e6 inc_dstn perm_dstn tran_dstn egm_stage = Inr r"
    by blast
  have e: "E_dot (pmf perm_dstn) (X perm_dstn) = Inr 1"
    "E_dot (pmf tran_dstn) (X tran_dstn) = Inr 1"
    by (simp_all add: init_defs)
  have "approx_1e6 1 1"
    using mean_one_validation[of approx_1e6 inc_dstn perm_dstn tran_dstn egm_stage] r e
    by auto
  moreover have
    "isl (ConsIndShockSetupEOP_init approx_1e6 inc_dstn bad_perm_dstn tran_dstn egm_stage)"
    using mean_one_validation[of approx_1e6 inc_dstn bad_perm_dstn tran_dstn egm_stage]
      init_bad by blast
  ultimately show ?thesis using r e init_bad by blast
qed

subsection \<open>The effective borrowing constraint\<close>

lemma ebindE:
  assumes "ebind m f = Inr y"
  obtains x where "m = Inr x" "f x = Inr y"
  using assms by (cases m) (simp_all add: ebind_def)

lemma build_recursive_facts_BoroCnst:
  assumes "build_recursive_facts s = Inr s1"
  shows "\<exists>nat. BoroCnstNat (bilt s1) = Some nat \<and>
           BoroCnst (bilt s1) =
             Some (case BoroCnstArt (pars s) of None \<Rightarrow> nat | Some art \<Rightarrow> max nat art) \<and>
           mNrmMin (bilt s1) = BoroCnst (bilt s1) \<and>
           BoroCnstArt (pars s1) = BoroCnstArt (pars s)"
  using assms unfolding build_recursive_facts_def Let_def
  by (elim ebindE) (auto simp: add_fcts_def max_def split: option.splits if_splits)

lemma make_cFunc_PF_first_node:
  assumes "make_cFunc_PF s1 = Inr s2"
  shows "\<exists>nat xs ys. BoroCnstNat (bilt s1) = Some nat \<and>
           cFunc (bilt s2) =
             LinearInterp ((case BoroCnstArt (pars s1) of None \<Rightarrow> nat
                            | Some art \<Rightarrow> max nat art) # xs) (0 # ys) None None"
  using assms unfolding make_cFunc_PF_def Let_def case_prod_beta
  by (elim ebindE) (auto simp: attr_Inr_iff pymax_def max_def split: option.splits)

text \<open>
  Claim C9. The effective borrowing constraint that \<^verbatim>\<open>build_recursive_facts\<close> stores
  (as \<^verbatim>\<open>BoroCnst\<close> and as \<^verbatim>\<open>mNrmMin\<close>) is the natural constraint when
  \<^verbatim>\<open>BoroCnstArt\<close> is \<^verbatim>\<open>None\<close> and the larger of the natural and the artificial
  constraint otherwise; \<^verbatim>\<open>make_cFunc_PF\<close> anchors the consumption function at the
  same value, with consumption 0.
\<close>

theorem effective_borrowing_constraint:
  assumes "build_recursive_facts s = Inr s1"
  shows "\<exists>nat. BoroCnstNat (bilt s1) = Some nat \<and>
           BoroCnst (bilt s1) =
             Some (case BoroCnstArt (pars s) of None \<Rightarrow> nat | Some art \<Rightarrow> max nat art) \<and>
           mNrmMin (bilt s1) = BoroCnst (bilt s1) \<and>
           (\<forall>s2. make_cFunc_PF s1 = Inr s2 \<longrightarrow>
              (\<exists>xs ys. cFunc (bilt s2) =
                 LinearInterp ((case BoroCnstArt (pars s) of None \<Rightarrow> nat
                                | Some art \<Rightarrow> max nat art) # xs) (0 # ys) None None))"
proof -
  from build_recursive_facts_BoroCnst[OF assms] obtain nat where
    n: "BoroCnstNat (bilt s1) = Some nat"
       "BoroCnst (bilt s1) =
          Some (case BoroCnstArt (pars s) of None \<Rightarrow> nat | Some art \<Rightarrow> max nat art)"
       "mNrmMin (bilt s1) = BoroCnst (bilt s1)"
       "BoroCnstArt (pars s1) = BoroCnstArt (pars s)" by blast
  have "\<exists>xs ys. cFunc (bilt s2) =
                 LinearInterp ((case BoroCnstArt (pars s) of None \<Rightarrow> nat
                                | Some art \<Rightarrow> max nat art) # xs) (0 # ys) None None"
    if "make_cFunc_PF s1 = Inr s2" for s2
    using make_cFunc_PF_first_node[OF that] n by auto
  with n show ?thesis by blast
qed

lemmas pf_defs = make_cFunc_PF_def merge_cusp_def first_reachable_def np_add_def pymax_def
  attr_def pf_stage_def unit_pars_def terminal_folw_def result_of_def

lemma pf_stage_solves:
  "result_of (\<lambda>s. (BoroCnstNat (bilt s), BoroCnst (bilt s), BoroCnstArt (pars s)))
     (ebind (build_infhor_facts_from_params pf_stage) build_recursive_facts)
     = Inr (Some (- 1), Some 0, Some 0)"
  "result_of (cFunc \<circ> bilt)
     (ebind (ebind (build_infhor_facts_from_params pf_stage) build_recursive_facts)
        make_cFunc_PF)
     = Inr (LinearInterp [0, 1, 2] [0, 1, 3 / 2] None None)"
  by (simp_all add: build_defs pf_defs)

theorem effective_borrowing_constraint_witness:
  "\<exists>s s1 s2. build_infhor_facts_from_params pf_stage = Inr s \<and>
     build_recursive_facts s = Inr s1 \<and> make_cFunc_PF s1 = Inr s2 \<and>
     BoroCnstArt (pars s) = Some 0 \<and> BoroCnstNat (bilt s1) = Some (- 1) \<and>
     BoroCnst (bilt s1) = Some (max (- 1) 0) \<and> mNrmMin (bilt s1) = Some 0 \<and>
     cFunc (bilt s2) = LinearInterp [0, 1, 2] [0, 1, 3 / 2] None None"
proof -
  from result_of_InrD[OF pf_stage_solves(2)] obtain s2 where
    r2: "ebind (ebind (build_infhor_facts_from_params pf_stage) build_recursive_facts)
           make_cFunc_PF = Inr s2"
    and c2: "cFunc (bilt s2) = LinearInterp [0, 1, 2] [0, 1, 3 / 2] None None"
    by auto
  from r2 obtain s s1 where
    r: "build_infhor_facts_from_params pf_stage = Inr s" "build_recursive_facts s = Inr s1"
       "make_cFunc_PF s1 = Inr s2"
    unfolding ebind_Inr_iff by blast
  from pf_stage_solves(1) r have
    e: "BoroCnstNat (bilt s1) = Some (- 1)" "BoroCnstArt (pars s1) = Some 0"
    by (simp_all add: result_of_def ebind_def)
  from effective_borrowing_constraint[OF r(2)] e(1) have
    b: "BoroCnst (bilt s1) =
          Some (case BoroCnstArt (pars s) of None \<Rightarrow> - 1 | Some art \<Rightarrow> max (- 1) art)"
       "mNrmMin (bilt s1) = BoroCnst (bilt s1)" by auto
  have a: "BoroCnstArt (pars s) = Some 0"
    using r(1) by (auto simp: build_defs pf_defs split: if_splits)
  from b a have "BoroCnst (bilt s1) = Some (max (- 1) 0)" "mNrmMin (bilt s1) = Some 0"
    by simp_all
  with r a e c2 show ?thesis by blast
qed

end
